theory Spec2Isabelle
  imports Complex_Main "HOL-Library.AList"
begin

section \<open>Numbers and JavaScript idioms\<close>

text \<open>
  JavaScript numbers are modelled as real numbers. A field of a configuration object
  that may be absent (\<open>undefined\<close>) is an \<open>option\<close>. The idiom \<open>x || d\<close> on a number
  yields \<open>d\<close> when \<open>x\<close> is absent or zero (both are falsy) and \<open>x\<close> otherwise; on a
  boolean it yields \<open>d\<close> when \<open>x\<close> is absent or false.
  A division whose divisor is zero has no real value (JavaScript gives \<open>Infinity\<close> or
  \<open>NaN\<close>): \<open>jsDiv\<close> returns \<open>None\<close> there.
\<close>

definition falsyOr :: "real option \<Rightarrow> real \<Rightarrow> real" where
  "falsyOr x d = (case x of None \<Rightarrow> d | Some v \<Rightarrow> if v = 0 then d else v)"

definition falsyOrBool :: "bool option \<Rightarrow> bool \<Rightarrow> bool" where
  "falsyOrBool x d = (case x of None \<Rightarrow> d | Some v \<Rightarrow> if v then v else d)"

definition jsDiv :: "real \<Rightarrow> real \<Rightarrow> real option" where
  "jsDiv a b = (if b = 0 then None else Some (a / b))"

section \<open>Geo math: \<open>calculateDistance\<close>\<close>

text \<open>
  \<open>Math.atan2(y, x)\<close> by quadrant. \<open>calculateDistance\<close> is the haversine formula of the
  source, on a sphere of radius \<open>6371e3\<close> metres, over the reals. For latitudes between
  -90 and 90 degrees both square roots are taken of numbers in \<open>[0, 1]\<close>.
\<close>

definition atan2 :: "real \<Rightarrow> real \<Rightarrow> real" where
  "atan2 y x =
     (if 0 < x then arctan (y / x)
      else if x < 0 then (if 0 \<le> y then arctan (y / x) + pi else arctan (y / x) - pi)
      else if 0 < y then pi / 2
      else if y < 0 then - (pi / 2)
      else 0)"

definition calculateDistance :: "real \<Rightarrow> real \<Rightarrow> real \<Rightarrow> real \<Rightarrow> real" where
  "calculateDistance lat1 lon1 lat2 lon2 =
     (let R = 6371000;
          phi1 = lat1 * pi / 180;
          phi2 = lat2 * pi / 180;
          dphi = (lat2 - lat1) * pi / 180;
          dlambda = (lon2 - lon1) * pi / 180;
          a = sin (dphi / 2) * sin (dphi / 2) +
              cos phi1 * cos phi2 * sin (dlambda / 2) * sin (dlambda / 2);
          c = 2 * atan2 (sqrt a) (sqrt (1 - a))
      in R * c)"

section \<open>Zone registry\<close>

text \<open>
  A position sample carries \<open>latitude\<close> and \<open>longitude\<close>; a zone centre is \<open>{lat, lng}\<close>.
  A stored zone has the fields \<open>id\<close>, \<open>center\<close>, \<open>radius\<close>, \<open>audioLayers\<close>,
  \<open>fadeDistance\<close>, \<open>maxVolume\<close> and \<open>isOneshot\<close>; the fields \<open>id\<close> and
  \<open>audioLayers\<close> are called \<open>zoneId\<close> and \<open>zoneLayers\<close> here. The configuration object
  handed to \<open>addAudioZone\<close> has the same fields, prefixed \<open>cfg\<close>, of which
  \<open>fadeDistance\<close>, \<open>maxVolume\<close> and \<open>isOneshot\<close> may be absent. The radius is taken
  to be present, as a number.
\<close>

record position =
  latitude :: real
  longitude :: real

record latLng =
  lat :: real
  lng :: real

record zone =
  zoneId :: string
  center :: latLng
  radius :: real
  zoneLayers :: "string list"
  fadeDistance :: real
  maxVolume :: real
  isOneshot :: bool

record zoneConfig =
  cfgId :: string
  cfgCenter :: latLng
  cfgRadius :: real
  cfgAudioLayers :: "string list"
  cfgFadeDistance :: "real option"
  cfgMaxVolume :: "real option"
  cfgIsOneshot :: "bool option"

definition makeZone :: "zoneConfig \<Rightarrow> zone" where
  "makeZone config =
     \<lparr> zoneId = cfgId config,
       center = cfgCenter config,
       radius = cfgRadius config,
       zoneLayers = cfgAudioLayers config,
       fadeDistance = falsyOr (cfgFadeDistance config) 50,
       maxVolume = falsyOr (cfgMaxVolume config) 1,
       isOneshot = falsyOrBool (cfgIsOneshot config) False \<rparr>"

definition zoneDistance :: "position \<Rightarrow> zone \<Rightarrow> real" where
  "zoneDistance p z =
     calculateDistance (latitude p) (longitude p) (lat (center z)) (lng (center z))"

section \<open>Mix engine: volume computation\<close>

text \<open>
  \<open>zoneVolume\<close> is the body of the loop of step 2 of \<open>updateLocationAudio\<close> for one
  zone, given the distance: \<open>volume\<close> starts at 0 and is assigned only inside the radius.
\<close>

definition zoneVolume :: "zone \<Rightarrow> real \<Rightarrow> real option" where
  "zoneVolume z distance =
     (if distance \<le> radius z then
        (let fadeStart = max 0 (radius z - fadeDistance z)
         in if distance \<le> fadeStart then Some (maxVolume z)
            else map_option (\<lambda>q. maxVolume z * q)
                   (jsDiv (radius z - distance) (fadeDistance z)))
      else Some 0)"

text \<open>
  \<open>layerTargetVolumes\<close> is a \<open>Map\<close>: an association list in insertion order.
  \<open>getOrZero m l\<close> is \<open>m.get(l) || 0\<close>.
\<close>

type_synonym targets = "(string \<times> real) list"

definition getOrZero :: "targets \<Rightarrow> string \<Rightarrow> real" where
  "getOrZero m l = falsyOr (map_of m l) 0"

fun setTargets :: "targets \<Rightarrow> string list \<Rightarrow> real \<Rightarrow> targets" where
  "setTargets m [] volume = m"
| "setTargets m (layerId # rest) volume =
     setTargets (AList.update layerId (max (getOrZero m layerId) volume) m) rest volume"

text \<open>
  \<open>lastDebugMessage\<close> is a template string in the source; here it is a value that keeps
  the parts the string is built from (numbers unformatted).
\<close>

datatype debugMessage =
    NoMessage
  | FinaleLocked
  | Triggered string real
  | ZoneVolume string real real
  | PartWaiting string "string list"
  | PartStarted string nat
  | PlayingOneshot string

text \<open>
  Step 2 of \<open>updateLocationAudio\<close>: the loop over the zones, threading the map of
  target volumes and \<open>lastDebugMessage\<close> (assigned for each non-oneshot zone whose radius
  contains the position). The result is \<open>None\<close> only if a volume has no real value.
\<close>

fun computeTargets ::
  "position \<Rightarrow> zone list \<Rightarrow> targets \<times> debugMessage \<Rightarrow> (targets \<times> debugMessage) option" where
  "computeTargets p [] acc = Some acc"
| "computeTargets p (z # zs) (m, msg) =
     (if isOneshot z then computeTargets p zs (m, msg)
      else (case zoneVolume z (zoneDistance p z) of
              None \<Rightarrow> None
            | Some volume \<Rightarrow>
                computeTargets p zs
                  (setTargets m (zoneLayers z) volume,
                   if zoneDistance p z \<le> radius z
                   then ZoneVolume (zoneId z) (zoneDistance p z) volume else msg)))"

text \<open>
  The contribution of a zone as the specification words it, for comparison with
  \<open>zoneVolume\<close>: 0 beyond the radius, else \<open>maxVolume\<close> up to
  \<open>max(0, radius - fadeDistance)\<close>, else the linear ramp.
\<close>

definition specContribution :: "zone \<Rightarrow> real \<Rightarrow> real" where
  "specContribution z d =
     (if d > radius z then 0
      else if d \<le> max 0 (radius z - fadeDistance z) then maxVolume z
      else maxVolume z * (radius z - d) / fadeDistance z)"

section \<open>Layer store and playback graph\<close>

text \<open>
  A layer object has the fields \<open>buffer\<close>, \<open>source\<close>, \<open>gainNode\<close>, \<open>isPlaying\<close>, \<open>loop\<close>,
  \<open>volume\<close> and \<open>url\<close>. A decoded buffer is identified by the URL it was fetched from.
  Source and gain nodes are objects shared between a layer and \<open>layerGains\<close>, so they
  live in a store, addressed by number; \<open>nextNode\<close> is the next free address. A gain
  node keeps the value it was created with and the ramps scheduled on it, as
  (target, duration) pairs; the audio clock itself is not modelled.
\<close>

record layer =
  buffer :: "string option"
  source :: "nat option"
  gainNode :: "nat option"
  isPlaying :: bool
  loop :: bool
  volume :: real
  url :: "string option"

datatype bus = MusicBus | OneshotBus

record bufferSource =
  srcBuffer :: string
  srcLoop :: bool
  srcOutput :: nat
  srcStopped :: bool

record gainParam =
  gainInitial :: real
  gainRamps :: "(real \<times> real) list"
  gainOutput :: bus

datatype timer =
    StopLayerIn string nat
  | DuckMusicBusIn real real nat

record mixer =
  isInitialized :: bool
  audioLayers :: "(string \<times> layer) list"
  audioZones :: "zone list"
  masterVolume :: real
  layerToPart :: "string \<rightharpoonup> string"
  partToLayers :: "string \<rightharpoonup> string list"
  startedParts :: "string set"
  layerGains :: "string \<rightharpoonup> nat"
  playedOneshots :: "string set"
  activeOneshots :: "string set"
  lastDebugMessage :: debugMessage
  sourceNodes :: "nat \<rightharpoonup> bufferSource"
  gainNodes :: "nat \<rightharpoonup> gainParam"
  nextNode :: nat
  musicBusRamps :: "(real \<times> real) list"
  timers :: "timer list"

text \<open>
  The constructor. \<open>audioLayers\<close> is a \<open>Map\<close> whose iteration order is used (an
  association list); a \<open>Set\<close> whose order is used is a duplicate-free list.
  \<open>updateAudioDebugPanel\<close> only renders the state and is left out, as are the
  proximity records kept for it.
\<close>

definition newMixer :: mixer where
  "newMixer =
     \<lparr> isInitialized = False, audioLayers = [], audioZones = [], masterVolume = 7 / 10,
       layerToPart = Map.empty, partToLayers = Map.empty, startedParts = {},
       layerGains = Map.empty, playedOneshots = {}, activeOneshots = {},
       lastDebugMessage = NoMessage, sourceNodes = Map.empty, gainNodes = Map.empty,
       nextNode = 0, musicBusRamps = [], timers = [] \<rparr>"

definition initialize :: "mixer \<Rightarrow> mixer" where
  "initialize s = (if isInitialized s then s else s\<lparr>isInitialized := True\<rparr>)"

definition isReady :: "mixer \<Rightarrow> bool" where
  "isReady s = isInitialized s"

definition setAdd :: "'a list \<Rightarrow> 'a \<Rightarrow> 'a list" where
  "setAdd xs x = (if x \<in> set xs then xs else xs @ [x])"

definition truthy :: "string option \<Rightarrow> bool" where
  "truthy x = (case x of None \<Rightarrow> False | Some v \<Rightarrow> v \<noteq> [])"

definition addAudioZone :: "mixer \<Rightarrow> zoneConfig \<Rightarrow> mixer" where
  "addAudioZone s config = s\<lparr>audioZones := audioZones s @ [makeZone config]\<rparr>"

definition registerLayerDefaults ::
  "mixer \<Rightarrow> string \<Rightarrow> bool \<Rightarrow> real \<Rightarrow> string option \<Rightarrow> mixer" where
  "registerLayerDefaults s layerId loop' volume' url' =
     (let existingBuffer = (case map_of (audioLayers s) layerId of
                              None \<Rightarrow> None | Some existing \<Rightarrow> buffer existing);
          existingUrl = (case map_of (audioLayers s) layerId of
                           None \<Rightarrow> None | Some existing \<Rightarrow> url existing)
      in s\<lparr>audioLayers :=
             AList.update layerId
               \<lparr> buffer = existingBuffer, source = None, gainNode = None, isPlaying = False,
                 loop = loop', volume = max 0 (min 1 volume'),
                 url = (if truthy url' then url'
                        else if truthy existingUrl then existingUrl else None) \<rparr>
               (audioLayers s)\<rparr>)"

definition registerLayerPart :: "mixer \<Rightarrow> string \<Rightarrow> string \<Rightarrow> mixer" where
  "registerLayerPart s layerId partId =
     (if partId = [] \<or> layerId = [] then s
      else s\<lparr>layerToPart := (layerToPart s)(layerId \<mapsto> partId),
             partToLayers := (partToLayers s)(partId \<mapsto>
               setAdd (case partToLayers s partId of None \<Rightarrow> [] | Some ls \<Rightarrow> ls) layerId)\<rparr>)"

subsection \<open>Loading\<close>

text \<open>
  \<open>loadAudio\<close> is the success path of the source's function (fetch and decode
  succeeded). Whether they succeed for a URL is the parameter \<open>fetchOk\<close>.
  \<open>ensureLayerLoaded\<close> returns whether its promise resolved (\<open>True\<close>) or rejected.
  Each load runs to completion before the caller goes on, so \<open>loadingLayers\<close> and
  \<open>loadingPromises\<close> are empty whenever they are read and are left out.
\<close>

definition loadAudio :: "mixer \<Rightarrow> string \<Rightarrow> string \<Rightarrow> mixer" where
  "loadAudio s url' layerId =
     (let layer' =
        (case map_of (audioLayers s) layerId of
           None \<Rightarrow>
             \<lparr> buffer = Some url', source = None, gainNode = None, isPlaying = False,
               loop = True, volume = 1, url = Some url' \<rparr>
         | Some existing \<Rightarrow>
             \<lparr> buffer = Some url', source = source existing, gainNode = gainNode existing,
               isPlaying = isPlaying existing, loop = loop existing,
               volume = volume existing,
               url = (if truthy (url existing) then url existing else Some url') \<rparr>)
      in s\<lparr>audioLayers := AList.update layerId layer' (audioLayers s)\<rparr>)"

definition ensureLayerLoaded :: "(string \<Rightarrow> bool) \<Rightarrow> mixer \<Rightarrow> string \<Rightarrow> bool \<times> mixer" where
  "ensureLayerLoaded fetchOk s layerId =
     (case map_of (audioLayers s) layerId of
        None \<Rightarrow> (True, s)
      | Some l \<Rightarrow>
          (case buffer l of
             Some b \<Rightarrow> (True, s)
           | None \<Rightarrow>
               (case url l of
                  None \<Rightarrow> (True, s)
                | Some u \<Rightarrow>
                    if u = [] then (True, s)
                    else if fetchOk u then (True, loadAudio s u layerId)
                    else (False, s))))"

subsection \<open>Part start protocol\<close>

text \<open>
  \<open>startLayer\<close> is the body of the second \<open>forEach\<close> of \<open>startPart\<close>: a member that
  is missing, unloaded or already playing is skipped; otherwise it gets a new looping
  source and a new gain node at 0, routed to the music bus, and is marked playing.
\<close>

definition layerLoaded :: "mixer \<Rightarrow> string \<Rightarrow> bool" where
  "layerLoaded s layerId =
     (case map_of (audioLayers s) layerId of None \<Rightarrow> False | Some l \<Rightarrow> buffer l \<noteq> None)"

definition startLayer :: "string \<Rightarrow> mixer \<Rightarrow> mixer" where
  "startLayer layerId s =
     (case map_of (audioLayers s) layerId of
        None \<Rightarrow> s
      | Some l \<Rightarrow>
          (case buffer l of
             None \<Rightarrow> s
           | Some b \<Rightarrow>
               if isPlaying l then s
               else
                 (let src = nextNode s; g = Suc (nextNode s)
                  in s\<lparr>sourceNodes := (sourceNodes s)(src \<mapsto>
                          \<lparr> srcBuffer = b, srcLoop = True, srcOutput = g,
                            srcStopped = False \<rparr>),
                        gainNodes := (gainNodes s)(g \<mapsto>
                          \<lparr> gainInitial = 0, gainRamps = [], gainOutput = MusicBus \<rparr>),
                        nextNode := nextNode s + 2,
                        audioLayers := AList.update layerId
                          (l\<lparr>source := Some src, gainNode := Some g, isPlaying := True\<rparr>)
                          (audioLayers s),
                        layerGains := (layerGains s)(layerId \<mapsto> g)\<rparr>)))"

definition startPart :: "mixer \<Rightarrow> string \<Rightarrow> mixer" where
  "startPart s partId =
     (if partId = [] then s
      else if partId \<in> startedParts s then s
      else
        (case partToLayers s partId of
           None \<Rightarrow> s
         | Some layerSet \<Rightarrow>
             if layerSet = [] then s
             else
               (let notLoaded = filter (\<lambda>layerId. \<not> layerLoaded s layerId) layerSet
                in if notLoaded \<noteq> []
                   then s\<lparr>lastDebugMessage := PartWaiting partId notLoaded\<rparr>
                   else
                     (let s1 = fold startLayer layerSet s
                      in s1\<lparr>startedParts := insert partId (startedParts s1),
                            lastDebugMessage := PartStarted partId (length layerSet)\<rparr>))))"

subsection \<open>Playing, fading and stopping a layer\<close>

definition stopSource :: "mixer \<Rightarrow> nat \<Rightarrow> mixer" where
  "stopSource s n =
     (case sourceNodes s n of
        None \<Rightarrow> s
      | Some src \<Rightarrow> s\<lparr>sourceNodes := (sourceNodes s)(n \<mapsto> src\<lparr>srcStopped := True\<rparr>)\<rparr>)"

definition rampGain :: "mixer \<Rightarrow> nat \<Rightarrow> real \<Rightarrow> real \<Rightarrow> mixer" where
  "rampGain s g target duration =
     (case gainNodes s g of
        None \<Rightarrow> s
      | Some gp \<Rightarrow>
          s\<lparr>gainNodes := (gainNodes s)(g \<mapsto> gp\<lparr>gainRamps := gainRamps gp @ [(target, duration)]\<rparr>)\<rparr>)"

definition playLayer :: "mixer \<Rightarrow> string \<Rightarrow> real \<Rightarrow> bool \<Rightarrow> mixer" where
  "playLayer s layerId volume' loop' =
     (case map_of (audioLayers s) layerId of
        None \<Rightarrow> s
      | Some l \<Rightarrow>
          (case buffer l of
             None \<Rightarrow> s
           | Some b \<Rightarrow>
               (let s1 = (case source l of None \<Rightarrow> s | Some old \<Rightarrow> stopSource s old);
                    src = nextNode s1; g = Suc (nextNode s1)
                in s1\<lparr>sourceNodes := (sourceNodes s1)(src \<mapsto>
                         \<lparr> srcBuffer = b, srcLoop = loop', srcOutput = g,
                           srcStopped = False \<rparr>),
                       gainNodes := (gainNodes s1)(g \<mapsto>
                         \<lparr> gainInitial = 0,
                           gainRamps = [(volume' * masterVolume s1, 5 / 100)],
                           gainOutput = MusicBus \<rparr>),
                       nextNode := nextNode s1 + 2,
                       audioLayers := AList.update layerId
                         (l\<lparr>source := Some src, gainNode := Some g, isPlaying := True\<rparr>)
                         (audioLayers s1)\<rparr>)))"

definition fadeLayer :: "mixer \<Rightarrow> string \<Rightarrow> real \<Rightarrow> real \<Rightarrow> mixer" where
  "fadeLayer s layerId targetVolume duration =
     (case map_of (audioLayers s) layerId of
        None \<Rightarrow> s
      | Some l \<Rightarrow>
          (case (case gainNode l of Some g \<Rightarrow> Some g | None \<Rightarrow> layerGains s layerId) of
             None \<Rightarrow> s
           | Some g \<Rightarrow>
               (let s1 = rampGain s g (targetVolume * masterVolume s) duration
                in s1\<lparr>audioLayers :=
                        AList.update layerId (l\<lparr>volume := targetVolume\<rparr>) (audioLayers s1)\<rparr>)))"

definition stopLayer :: "string \<Rightarrow> mixer \<Rightarrow> mixer" where
  "stopLayer layerId s =
     (case map_of (audioLayers s) layerId of
        None \<Rightarrow> s
      | Some l \<Rightarrow>
          if \<not> isPlaying l then s
          else
            (let s1 = (case source l of None \<Rightarrow> s | Some n \<Rightarrow> stopSource s n)
             in s1\<lparr>audioLayers :=
                     AList.update layerId
                       (l\<lparr>isPlaying := False, source := None, gainNode := None\<rparr>)
                       (audioLayers s1)\<rparr>))"

section \<open>Oneshot trigger controller\<close>

text \<open>
  \<open>duckMusicBus\<close> cancels the ramps scheduled on the music bus and schedules one.
  \<open>playOneShot\<close> plays a layer once on the oneshot bus; the callbacks it hands to
  \<open>setTimeout\<close> are recorded in \<open>timers\<close>. The \<open>onended\<close> callback of the source
  runs when the clip has finished: it is \<open>oneshotEnded\<close> below.
\<close>

definition duckMusicBus :: "mixer \<Rightarrow> real \<Rightarrow> real \<Rightarrow> mixer" where
  "duckMusicBus s targetGain duration =
     (if \<not> isInitialized s then s else s\<lparr>musicBusRamps := [(targetGain, duration)]\<rparr>)"


text \<open>
  The zone ids that step 1 compares with: the finale and its prerequisite.
\<close>

definition finaleZoneId :: string where
  "finaleZoneId = ''oneshot_finale''"

definition oneshot9ZoneId :: string where
  "oneshot9ZoneId = ''oneshot_9''"

text \<open>
  Step 1 of \<open>updateLocationAudio\<close>, one zone: the body of the \<open>forEach\<close> over
  \<open>audioZones\<close>. The trigger radius is \<open>Math.max(1, zone.radius || 10)\<close>. When the
  trigger branch runs, the zone id is added to \<open>playedOneshots\<close> and the source starts,
  for each layer of the zone, a detached task that loads the layer and calls
  \<open>playOneShot\<close>; the second component collects the zones whose trigger branch ran, in
  order.
\<close>

definition triggerRadius :: "zone \<Rightarrow> real" where
  "triggerRadius z = max 1 (falsyOr (Some (radius z)) 10)"

definition oneshotZone :: "position \<Rightarrow> zone \<Rightarrow> mixer \<times> zone list \<Rightarrow> mixer \<times> zone list" where
  "oneshotZone p z acc =
     (case acc of (s, fired) \<Rightarrow>
        if \<not> isOneshot z then (s, fired)
        else
          (let distance = zoneDistance p z;
               alreadyPlayed = (zoneId z \<in> playedOneshots s)
           in if distance \<le> triggerRadius z \<and> \<not> alreadyPlayed then
                (if finaleZoneId \<in> playedOneshots s \<and> zoneId z \<noteq> finaleZoneId
                 then (s, fired)
                 else if zoneId z = finaleZoneId \<and> oneshot9ZoneId \<notin> playedOneshots s
                 then (s\<lparr>lastDebugMessage := FinaleLocked\<rparr>, fired)
                 else (s\<lparr>playedOneshots := insert (zoneId z) (playedOneshots s),
                         lastDebugMessage := Triggered (zoneId z) distance\<rparr>,
                       fired @ [z]))
              else (s, fired)))"

definition handleOneshots :: "position \<Rightarrow> mixer \<Rightarrow> mixer \<times> zone list" where
  "handleOneshots p s = fold (oneshotZone p) (audioZones s) (s, [])"

section \<open>\<open>updateLocationAudio\<close>\<close>

text \<open>
  Step 3: the parts to start are those of the layers with a positive target, in the
  order of the map's keys. For each, the loads of all members are awaited together
  (\<open>Promise.all\<close>): if one rejects, the \<open>await\<close> throws and \<open>updateLocationAudio\<close> rejects
  there; otherwise \<open>startPart\<close> is called.
\<close>

fun partsToStart :: "mixer \<Rightarrow> targets \<Rightarrow> string list \<Rightarrow> string list \<Rightarrow> string list" where
  "partsToStart s m [] acc = acc"
| "partsToStart s m (layerId # rest) acc =
     (if (case map_of m layerId of None \<Rightarrow> False | Some v \<Rightarrow> v > 0) then
        (case layerToPart s layerId of
           None \<Rightarrow> partsToStart s m rest acc
         | Some partId \<Rightarrow>
             if partId \<noteq> [] \<and> partId \<notin> startedParts s
             then partsToStart s m rest (setAdd acc partId)
             else partsToStart s m rest acc)
      else partsToStart s m rest acc)"

fun loadAll :: "(string \<Rightarrow> bool) \<Rightarrow> mixer \<Rightarrow> string list \<Rightarrow> string option \<times> mixer" where
  "loadAll fetchOk s [] = (None, s)"
| "loadAll fetchOk s (layerId # rest) =
     (case ensureLayerLoaded fetchOk s layerId of (ok, s1) \<Rightarrow>
        (case loadAll fetchOk s1 rest of (failed, s2) \<Rightarrow>
           (if ok then failed else Some layerId, s2)))"

fun startQueuedParts ::
  "(string \<Rightarrow> bool) \<Rightarrow> mixer \<Rightarrow> string list \<Rightarrow> string option \<times> mixer" where
  "startQueuedParts fetchOk s [] = (None, s)"
| "startQueuedParts fetchOk s (partId # rest) =
     (case (case partToLayers s partId of
              None \<Rightarrow> (None, s)
            | Some layerSet \<Rightarrow> loadAll fetchOk s layerSet) of
        (Some failed, s1) \<Rightarrow> (Some failed, s1)
      | (None, s1) \<Rightarrow> startQueuedParts fetchOk (startPart s1 partId) rest)"

text \<open>
  Step 4, one layer: the body of the \<open>forEach\<close> over \<open>audioLayers\<close>.
  \<open>isOneshotLayerId\<close> is \<open>layerId.startsWith('oneshot')\<close>.
\<close>

definition isOneshotLayerId :: "string \<Rightarrow> bool" where
  "isOneshotLayerId layerId = (take 7 layerId = ''oneshot'')"

definition mixLayer :: "targets \<Rightarrow> string \<Rightarrow> mixer \<Rightarrow> mixer" where
  "mixLayer m layerId s =
     (case map_of (audioLayers s) layerId of
        None \<Rightarrow> s
      | Some l \<Rightarrow>
          if layerId \<in> activeOneshots s then s
          else if isOneshotLayerId layerId then s
          else
            (let targetVolume = getOrZero m layerId
             in if targetVolume > 0 then
                  (if \<not> isPlaying l then playLayer s layerId targetVolume True
                   else fadeLayer s layerId targetVolume (4 / 10))
                else if isPlaying l then
                  (if truthy (layerToPart s layerId) then fadeLayer s layerId 0 (8 / 10)
                   else (let s1 = fadeLayer s layerId 0 (8 / 10)
                         in s1\<lparr>timers := timers s1 @ [StopLayerIn layerId 900]\<rparr>))
                else s))"

definition applyFades :: "targets \<Rightarrow> mixer \<Rightarrow> mixer" where
  "applyFades m s = fold (mixLayer m) (map fst (audioLayers s)) s"

text \<open>
  The outcome of a call: it returned, or it rejected because the load of the named
  layer failed. \<open>NonFiniteVolume\<close> stands for a volume that is not a real number.
  The result is the state, the zones whose trigger branch ran, and the outcome. The
  detached oneshot tasks run outside the call; \<open>runOneshotTask\<close> is one of them.
\<close>

datatype outcome = Returned | Rejected string | NonFiniteVolume

definition updateLocationAudio ::
  "(string \<Rightarrow> bool) \<Rightarrow> mixer \<Rightarrow> position option \<Rightarrow> mixer \<times> zone list \<times> outcome" where
  "updateLocationAudio fetchOk s position =
     (case position of
        None \<Rightarrow> (s, [], Returned)
      | Some p \<Rightarrow>
          if \<not> isReady s then (s, [], Returned)
          else
            (case handleOneshots p s of (s1, fired) \<Rightarrow>
               (case computeTargets p (audioZones s1) ([], lastDebugMessage s1) of
                  None \<Rightarrow> (s1, fired, NonFiniteVolume)
                | Some (layerTargetVolumes, msg) \<Rightarrow>
                    (let s2 = s1\<lparr>lastDebugMessage := msg\<rparr>;
                         queued = partsToStart s2 layerTargetVolumes
                                    (map fst layerTargetVolumes) []
                     in (case startQueuedParts fetchOk s2 queued of
                           (Some failed, s3) \<Rightarrow> (s3, fired, Rejected failed)
                         | (None, s3) \<Rightarrow>
                             (applyFades layerTargetVolumes s3, fired, Returned))))))"


section \<open>Reset\<close>



section \<open>Sessions and reference notions\<close>

text \<open>
  A session feeds position samples to \<open>updateLocationAudio\<close> one after the other and
  collects the zones whose trigger branch ran.
\<close>

fun runSession ::
  "(string \<Rightarrow> bool) \<Rightarrow> mixer \<Rightarrow> position option list \<Rightarrow> mixer \<times> zone list" where
  "runSession fetchOk s [] = (s, [])"
| "runSession fetchOk s (pos # rest) =
     (case updateLocationAudio fetchOk s pos of
        (s1, fired, out) \<Rightarrow>
          (case runSession fetchOk s1 rest of (s2, fired') \<Rightarrow> (s2, fired @ fired')))"

text \<open>
  The contributions to a layer at a position: the volumes \<open>zoneVolume\<close> computes for
  the non-oneshot zones whose layer list contains the layer.
\<close>

definition contributions :: "position \<Rightarrow> zone list \<Rightarrow> string \<Rightarrow> real set" where
  "contributions p zs l =
     {v. \<exists>z \<in> set zs. \<not> isOneshot z \<and> l \<in> set (zoneLayers z) \<and>
           zoneVolume z (zoneDistance p z) = Some v}"

text \<open>
  The position \<open>m\<close> metres north of latitude 0, longitude 0, and a zone centre there.
\<close>

definition northOf :: "real \<Rightarrow> position" where
  "northOf m = \<lparr> latitude = m * 180 / (6371000 * pi), longitude = 0 \<rparr>"

definition origin :: latLng where
  "origin = \<lparr> lat = 0, lng = 0 \<rparr>"

definition centerNorth :: "real \<Rightarrow> latLng" where
  "centerNorth m = \<lparr> lat = m * 180 / (6371000 * pi), lng = 0 \<rparr>"

text \<open>
  Inputs of the scenarios that the specification lists: the zone \<open>z1\<close> with radius 100,
  fade distance 20, maximal volume 1 and the layer \<open>L1\<close>; and a music zone over one
  shared layer with a given maximal volume.
\<close>

definition z1Config :: "latLng \<Rightarrow> zoneConfig" where
  "z1Config c =
     \<lparr> cfgId = ''z1'', cfgCenter = c, cfgRadius = 100, cfgAudioLayers = [''L1''],
       cfgFadeDistance = Some 20, cfgMaxVolume = Some 1, cfgIsOneshot = None \<rparr>"

definition sharedLayerConfig :: "string \<Rightarrow> latLng \<Rightarrow> real \<Rightarrow> real \<Rightarrow> zoneConfig" where
  "sharedLayerConfig name c r v =
     \<lparr> cfgId = name, cfgCenter = c, cfgRadius = r, cfgAudioLayers = [''L''],
       cfgFadeDistance = None, cfgMaxVolume = Some v, cfgIsOneshot = None \<rparr>"

text \<open>
  The guard under which the trigger branch of step 1 runs for a zone, read off
  \<open>oneshotZone\<close>: the zone is a oneshot in range that has not played, the walk is not
  completed (or the zone is the finale), and the finale is unlocked.
  \<open>sameSession s t\<close>: \<open>t\<close> has the registry, the played oneshots and the readiness of \<open>s\<close>.
\<close>

definition oneshotFires :: "position \<Rightarrow> mixer \<Rightarrow> zone \<Rightarrow> bool" where
  "oneshotFires p s z =
     (isOneshot z \<and> zoneDistance p z \<le> triggerRadius z \<and> zoneId z \<notin> playedOneshots s \<and>
      \<not> (finaleZoneId \<in> playedOneshots s \<and> zoneId z \<noteq> finaleZoneId) \<and>
      \<not> (zoneId z = finaleZoneId \<and> oneshot9ZoneId \<notin> playedOneshots s))"

definition sameSession :: "mixer \<Rightarrow> mixer \<Rightarrow> bool" where
  "sameSession s t =
     (audioZones t = audioZones s \<and> playedOneshots t = playedOneshots s \<and>
      isInitialized t = isInitialized s)"

text \<open>
  For the oneshot scenarios: a oneshot zone definition with radius 10 and the given
  layers, the position at latitude 0 and longitude 0, and the initialized mixer that
  has registered a list of zone definitions in order.
\<close>

definition oneshotConfig :: "string \<Rightarrow> latLng \<Rightarrow> string list \<Rightarrow> zoneConfig" where
  "oneshotConfig name c ls =
     \<lparr> cfgId = name, cfgCenter = c, cfgRadius = 10, cfgAudioLayers = ls,
       cfgFadeDistance = None, cfgMaxVolume = None, cfgIsOneshot = Some True \<rparr>"

definition atOrigin :: position where
  "atOrigin = \<lparr> latitude = 0, longitude = 0 \<rparr>"

definition mixerWith :: "zoneConfig list \<Rightarrow> mixer" where
  "mixerWith configs = initialize (fold (\<lambda>config s. addAudioZone s config) configs newMixer)"

text \<open>
  The oneshot zones of the scenarios: two ordinary ones, 1000 metres apart, the
  prerequisite of the finale, and the finale.
\<close>

definition firstOneshot :: zoneConfig where
  "firstOneshot = oneshotConfig ''oneshot_1'' origin [''oneshot1'']"

definition secondOneshot :: zoneConfig where
  "secondOneshot = oneshotConfig ''oneshot_2'' (centerNorth 1000) [''oneshot2'']"

definition ninthOneshot :: zoneConfig where
  "ninthOneshot = oneshotConfig oneshot9ZoneId origin [''oneshot9'']"

definition finaleOneshot :: zoneConfig where
  "finaleOneshot = oneshotConfig finaleZoneId origin [''oneshot10'']"

text \<open>
  For the part start protocol: whether a layer is marked playing, the source it owns,
  and what it means that a layer was started between two states. The layer owns a source
  and a gain node whose addresses were free in the earlier state; the source plays the
  layer's buffer in a loop, not stopped, into the gain node; the gain node was created
  at 0 on the music bus with nothing scheduled, and \<open>layerGains\<close> points to it; the layer
  record is otherwise as it was and is marked playing.
\<close>

definition layerPlaying :: "mixer \<Rightarrow> string \<Rightarrow> bool" where
  "layerPlaying s layerId =
     (case map_of (audioLayers s) layerId of None \<Rightarrow> False | Some l \<Rightarrow> isPlaying l)"

definition layerSource :: "mixer \<Rightarrow> string \<Rightarrow> nat option" where
  "layerSource s layerId =
     (case map_of (audioLayers s) layerId of None \<Rightarrow> None | Some l \<Rightarrow> source l)"

definition startedFresh :: "mixer \<Rightarrow> mixer \<Rightarrow> string \<Rightarrow> bool" where
  "startedFresh s s' layerId =
     (case (map_of (audioLayers s) layerId, map_of (audioLayers s') layerId) of
        (Some l, Some l') \<Rightarrow>
          (case (buffer l, source l', gainNode l') of
             (Some b, Some src, Some g) \<Rightarrow>
               nextNode s \<le> src \<and> src < nextNode s' \<and> nextNode s \<le> g \<and> g < nextNode s' \<and>
               l' = l\<lparr>source := Some src, gainNode := Some g, isPlaying := True\<rparr> \<and>
               sourceNodes s' src =
                 Some \<lparr> srcBuffer = b, srcLoop = True, srcOutput = g, srcStopped = False \<rparr> \<and>
               gainNodes s' g =
                 Some \<lparr> gainInitial = 0, gainRamps = [], gainOutput = MusicBus \<rparr> \<and>
               layerGains s' layerId = Some g
           | _ \<Rightarrow> False)
      | _ \<Rightarrow> False)"

text \<open>
  The part scenarios: an initialized mixer with the layers \<open>A\<close> and \<open>B\<close> registered as
  the members of part \<open>P\<close>; the same with only \<open>A\<close> loaded, with both loaded, and with
  both loaded and \<open>A\<close> already playing through \<open>playLayer\<close>.
\<close>

definition partRegistered :: mixer where
  "partRegistered =
     registerLayerPart
       (registerLayerPart
          (registerLayerDefaults
             (registerLayerDefaults (initialize newMixer) ''A'' True 1 (Some ''a.mp3''))
             ''B'' True 1 (Some ''b.mp3''))
          ''A'' ''P'')
       ''B'' ''P''"

definition partHalfLoaded :: mixer where
  "partHalfLoaded = loadAudio partRegistered ''a.mp3'' ''A''"

definition partLoaded :: mixer where
  "partLoaded = loadAudio partHalfLoaded ''b.mp3'' ''B''"

definition partMemberPlaying :: mixer where
  "partMemberPlaying = playLayer partLoaded ''A'' (1 / 2) True"

text \<open>
  The failed-load scenario: the layers \<open>A\<close> and \<open>B\<close> form part \<open>P\<close> and are not yet
  loaded; the layer \<open>C\<close> belongs to no part and is loaded; one music zone of radius
  100 around the origin lists \<open>A\<close> and \<open>C\<close>. The asset of \<open>B\<close> cannot be loaded.
\<close>

definition musicZoneConfig :: zoneConfig where
  "musicZoneConfig =
     \<lparr> cfgId = ''music1'', cfgCenter = origin, cfgRadius = 100,
       cfgAudioLayers = [''A'', ''C''], cfgFadeDistance = Some 20, cfgMaxVolume = Some 1,
       cfgIsOneshot = None \<rparr>"

definition failedLoadMixer :: mixer where
  "failedLoadMixer =
     addAudioZone
       (loadAudio (registerLayerDefaults partRegistered ''C'' True 1 (Some ''c.mp3''))
          ''c.mp3'' ''C'')
       musicZoneConfig"

definition assetOfBMissing :: "string \<Rightarrow> bool" where
  "assetOfBMissing u = (u \<noteq> ''b.mp3'')"

definition allAssetsLoad :: "string \<Rightarrow> bool" where
  "allAssetsLoad u = True"


section \<open>Oneshot playback over a session\<close>




definition layerLoadable :: "(string \<Rightarrow> bool) \<Rightarrow> mixer \<Rightarrow> string \<Rightarrow> bool" where
  "layerLoadable fetchOk s layerId =
     (case map_of (audioLayers s) layerId of
        None \<Rightarrow> False
      | Some l \<Rightarrow>
          (case buffer l of
             Some b \<Rightarrow> True
           | None \<Rightarrow> (case url l of None \<Rightarrow> False | Some u \<Rightarrow> u \<noteq> [] \<and> fetchOk u)))"








section \<open>Geo math facts\<close>

lemma calculateDistance_self: "calculateDistance a b a b = 0"
  by (simp add: calculateDistance_def atan2_def Let_def)

lemma atan2_sin_cos:
  assumes "0 \<le> x" "x < pi / 2"
  shows "atan2 (sqrt (sin x * sin x)) (sqrt (1 - sin x * sin x)) = x"
proof -
  have s: "0 \<le> sin x" using assms by (simp add: sin_ge_zero)
  have c: "0 < cos x" using assms by (intro cos_gt_zero_pi) auto
  have "1 - sin x * sin x = cos x * cos x"
    using sin_cos_squared_add3 [of x] by (simp add: algebra_simps)
  then have "sqrt (1 - sin x * sin x) = cos x" using c by simp
  moreover have "sqrt (sin x * sin x) = sin x" using s by simp
  ultimately have "atan2 (sqrt (sin x * sin x)) (sqrt (1 - sin x * sin x)) = arctan (sin x / cos x)"
    using c by (simp add: atan2_def)
  also have "\<dots> = arctan (tan x)" by (simp add: tan_def)
  also have "\<dots> = x" using assms by (simp add: arctan_tan)
  finally show ?thesis .
qed

lemma calculateDistance_meridian:
  assumes "0 \<le> d" "d < 180"
  shows "calculateDistance a b (a + d) b = 6371000 * (d * pi / 180)"
proof -
  define h where "h = d * pi / 180 / 2"
  have "0 \<le> h" using assms by (simp add: h_def)
  moreover have "h < pi / 2" using assms by (simp add: h_def)
  ultimately have "atan2 (sqrt (sin h * sin h)) (sqrt (1 - sin h * sin h)) = h"
    by (rule atan2_sin_cos)
  moreover have "calculateDistance a b (a + d) b
      = 6371000 * (2 * atan2 (sqrt (sin h * sin h)) (sqrt (1 - sin h * sin h)))"
    by (simp add: calculateDistance_def Let_def h_def)
  ultimately have "calculateDistance a b (a + d) b = 6371000 * (2 * h)"
    by (simp only:)
  also have "2 * h = d * pi / 180" by (simp add: h_def)
  finally show ?thesis .
qed

lemma calculateDistance_sym: "calculateDistance a b c d = calculateDistance c d a b"
proof -
  have neg: "sin ((x - y) * pi / 180 / 2) = - sin ((y - x) * pi / 180 / 2)" for x y :: real
  proof -
    have "(x - y) * pi / 180 / 2 = - ((y - x) * pi / 180 / 2)" by (simp add: field_simps)
    then show ?thesis by (simp only: sin_minus)
  qed
  have 1: "sin ((c - a) * pi / 180 / 2) = - sin ((a - c) * pi / 180 / 2)" by (rule neg)
  have 2: "sin ((d - b) * pi / 180 / 2) = - sin ((b - d) * pi / 180 / 2)" by (rule neg)
  show ?thesis
    unfolding calculateDistance_def Let_def 1 2 by (simp add: mult.commute)
qed

lemma metres_in_degrees:
  assumes "0 \<le> m" "m < 6371000"
  shows "0 \<le> m * 180 / (6371000 * pi)" and "m * 180 / (6371000 * pi) < 180"
    and "6371000 * (m * 180 / (6371000 * pi) * pi / 180) = m"
proof -
  show "0 \<le> m * 180 / (6371000 * pi)" using assms by simp
  have "m < 6371000 * 2" using assms by simp
  also have "\<dots> \<le> 6371000 * pi" using pi_ge_two by simp
  finally show "m * 180 / (6371000 * pi) < 180" by (simp add: pos_divide_less_eq)
  show "6371000 * (m * 180 / (6371000 * pi) * pi / 180) = m" by simp
qed

lemma calculateDistance_north:
  assumes "0 \<le> m" "m < 6371000"
  shows "calculateDistance 0 0 (m * 180 / (6371000 * pi)) 0 = m"
    and "calculateDistance (m * 180 / (6371000 * pi)) 0 0 0 = m"
proof -
  have "calculateDistance 0 0 (0 + m * 180 / (6371000 * pi)) 0
      = 6371000 * (m * 180 / (6371000 * pi) * pi / 180)"
    using metres_in_degrees(1,2) [OF assms] by (rule calculateDistance_meridian)
  then show a: "calculateDistance 0 0 (m * 180 / (6371000 * pi)) 0 = m"
    using metres_in_degrees(3) [OF assms] by simp
  show "calculateDistance (m * 180 / (6371000 * pi)) 0 0 0 = m"
    using a by (simp add: calculateDistance_sym [of _ 0 0 0])
qed

lemma zoneDistance_north:
  assumes "0 \<le> m" "m < 6371000" "center z = origin"
  shows "zoneDistance (northOf m) z = m"
  using calculateDistance_north(2) [OF assms(1,2)] assms(3)
  by (simp add: zoneDistance_def northOf_def origin_def)

lemma zoneDistance_at_center:
  "zoneDistance \<lparr> latitude = lat (center z), longitude = lng (center z) \<rparr> z = 0"
  by (simp add: zoneDistance_def calculateDistance_self)

section \<open>Volume computation\<close>

lemma zoneVolume_spec: "zoneVolume z d = Some (specContribution z d)"
  by (auto simp: zoneVolume_def specContribution_def jsDiv_def Let_def max_def)

lemma getOrZero_map_of: "getOrZero m l = (case map_of m l of None \<Rightarrow> 0 | Some v \<Rightarrow> v)"
  by (simp add: getOrZero_def falsyOr_def split: option.splits)

lemma getOrZero_update:
  "getOrZero (AList.update k v m) l = (if l = k then v else getOrZero m l)"
  by (simp add: getOrZero_map_of update_conv')

lemma getOrZero_setTargets:
  "getOrZero (setTargets m ls v) l =
     (if l \<in> set ls then max (getOrZero m l) v else getOrZero m l)"
  by (induction ls arbitrary: m) (auto simp: getOrZero_update)

lemma contributions_image:
  "contributions p zs l =
     (\<lambda>z. specContribution z (zoneDistance p z)) `
       {z \<in> set zs. \<not> isOneshot z \<and> l \<in> set (zoneLayers z)}"
  by (auto simp: contributions_def zoneVolume_spec)

lemma finite_contributions: "finite (contributions p zs l)"
  by (simp add: contributions_image)

lemma contributions_Cons:
  "contributions p (z # zs) l =
     (if \<not> isOneshot z \<and> l \<in> set (zoneLayers z)
      then insert (specContribution z (zoneDistance p z)) (contributions p zs l)
      else contributions p zs l)"
  by (auto simp: contributions_image)

lemma computeTargets_total: "\<exists>m' msg'. computeTargets p zs (m, msg) = Some (m', msg')"
  by (induction zs arbitrary: m msg) (auto simp: zoneVolume_spec)

lemma computeTargets_max:
  "computeTargets p zs (m, msg) = Some (m', msg') \<Longrightarrow>
     getOrZero m' l = Max (insert (getOrZero m l) (contributions p zs l))"
proof (induction zs arbitrary: m msg)
  case Nil
  then show ?case by (simp add: contributions_image)
next
  case (Cons z zs)
  show ?case
  proof (cases "isOneshot z")
    case True
    with Cons show ?thesis by (simp add: contributions_Cons)
  next
    case False
    let ?v = "specContribution z (zoneDistance p z)"
    let ?msg = "if zoneDistance p z \<le> radius z
                then ZoneVolume (zoneId z) (zoneDistance p z) ?v else msg"
    from Cons.prems False
    have "computeTargets p zs (setTargets m (zoneLayers z) ?v, ?msg) = Some (m', msg')"
      by (simp add: zoneVolume_spec)
    then have ih: "getOrZero m' l =
        Max (insert (getOrZero (setTargets m (zoneLayers z) ?v) l) (contributions p zs l))"
      by (rule Cons.IH)
    show ?thesis
    proof (cases "l \<in> set (zoneLayers z)")
      case True
      have "Max (insert (max (getOrZero m l) ?v) (contributions p zs l))
          = Max (insert (getOrZero m l) (insert ?v (contributions p zs l)))"
        using finite_contributions [of p zs l]
        by (cases "contributions p zs l = {}")
           (auto simp: max.assoc max.commute max.left_commute)
      with ih True False show ?thesis
        by (simp add: getOrZero_setTargets contributions_Cons)
    next
      case notin: False
      with ih False show ?thesis
        by (simp add: getOrZero_setTargets contributions_Cons)
    qed
  qed
qed

lemma specContribution_nonneg: "0 \<le> maxVolume z \<Longrightarrow> 0 \<le> specContribution z d"
  by (auto simp: specContribution_def max_def split: if_splits
       intro!: mult_nonneg_nonneg divide_nonneg_pos)

lemma contributions_nonneg:
  assumes "\<forall>z \<in> set zs. 0 \<le> maxVolume z" "v \<in> contributions p zs l"
  shows "0 \<le> v"
  using assms by (auto simp: contributions_image specContribution_nonneg)

lemma getOrZero_empty: "getOrZero [] l = 0"
  by (simp add: getOrZero_map_of)

lemma z1_fields:
  "radius (makeZone (z1Config c)) = 100" "fadeDistance (makeZone (z1Config c)) = 20"
  "maxVolume (makeZone (z1Config c)) = 1" "\<not> isOneshot (makeZone (z1Config c))"
  "zoneLayers (makeZone (z1Config c)) = [''L1'']" "center (makeZone (z1Config c)) = c"
  by (simp_all add: makeZone_def z1Config_def falsyOr_def falsyOrBool_def)

lemma z1_targets:
  assumes "zoneDistance p (makeZone (z1Config c)) = d"
    and "specContribution (makeZone (z1Config c)) d = v" and "0 \<le> v"
  shows "map_option fst
           (computeTargets p (audioZones (addAudioZone newMixer (z1Config c))) ([], msg))
         = Some [(''L1'', v)]"
proof -
  have "audioZones (addAudioZone newMixer (z1Config c)) = [makeZone (z1Config c)]"
    by (simp add: addAudioZone_def newMixer_def)
  moreover have "setTargets [] (zoneLayers (makeZone (z1Config c))) v = [(''L1'', v)]"
    using assms(3) by (simp add: z1_fields getOrZero_empty)
  ultimately show ?thesis
    using assms(1,2) by (simp add: zoneVolume_spec z1_fields)
qed

text \<open>
  Claim C1. For every zone and every position, the volume that step 2 of
  \<open>updateLocationAudio\<close> computes for the zone is 0 if the distance to the centre exceeds
  the radius, \<open>maxVolume\<close> if the distance is at most \<open>max(0, radius - fadeDistance)\<close>,
  and \<open>maxVolume * (radius - distance) / fadeDistance\<close> otherwise. For the registry
  holding the single zone with radius 100, fade distance 20, maximal volume 1 and the
  layer L1, the target of L1 is 1 at distance 0, 0.5 at distance 90 and 0 at distance 150.
\<close>

theorem zone_contribution_piecewise:
  "zoneVolume z (zoneDistance p z) =
     Some (if zoneDistance p z > radius z then 0
           else if zoneDistance p z \<le> max 0 (radius z - fadeDistance z) then maxVolume z
           else maxVolume z * (radius z - zoneDistance p z) / fadeDistance z)
   \<and> zoneVolume z (zoneDistance p z) = Some (specContribution z (zoneDistance p z))
   \<and> (zoneDistance p (makeZone (z1Config c)) = 0 \<longrightarrow>
        map_option fst
          (computeTargets p (audioZones (addAudioZone newMixer (z1Config c))) ([], msg))
        = Some [(''L1'', 1)])
   \<and> (zoneDistance p (makeZone (z1Config c)) = 90 \<longrightarrow>
        map_option fst
          (computeTargets p (audioZones (addAudioZone newMixer (z1Config c))) ([], msg))
        = Some [(''L1'', 1 / 2)])
   \<and> (zoneDistance p (makeZone (z1Config c)) = 150 \<longrightarrow>
        map_option fst
          (computeTargets p (audioZones (addAudioZone newMixer (z1Config c))) ([], msg))
        = Some [(''L1'', 0)])"
proof -
  have spec: "zoneVolume z (zoneDistance p z) = Some (specContribution z (zoneDistance p z))"
    by (rule zoneVolume_spec)
  have first: "zoneVolume z (zoneDistance p z) =
     Some (if zoneDistance p z > radius z then 0
           else if zoneDistance p z \<le> max 0 (radius z - fadeDistance z) then maxVolume z
           else maxVolume z * (radius z - zoneDistance p z) / fadeDistance z)"
    by (simp add: zoneVolume_spec specContribution_def)
  have v0: "specContribution (makeZone (z1Config c)) 0 = 1"
    by (simp add: specContribution_def z1_fields)
  have v90: "specContribution (makeZone (z1Config c)) 90 = 1 / 2"
    by (simp add: specContribution_def z1_fields)
  have v150: "specContribution (makeZone (z1Config c)) 150 = 0"
    by (simp add: specContribution_def z1_fields)
  show ?thesis
    using spec first z1_targets [OF _ v0] z1_targets [OF _ v90] z1_targets [OF _ v150]
    by simp
qed

theorem zone_contribution_piecewise_witness:
  "zoneDistance (northOf 0) (makeZone (z1Config origin)) = 0
   \<and> map_option fst (computeTargets (northOf 0)
        (audioZones (addAudioZone newMixer (z1Config origin))) ([], NoMessage))
      = Some [(''L1'', 1)]
   \<and> zoneDistance (northOf 90) (makeZone (z1Config origin)) = 90
   \<and> map_option fst (computeTargets (northOf 90)
        (audioZones (addAudioZone newMixer (z1Config origin))) ([], NoMessage))
      = Some [(''L1'', 1 / 2)]
   \<and> zoneDistance (northOf 150) (makeZone (z1Config origin)) = 150
   \<and> map_option fst (computeTargets (northOf 150)
        (audioZones (addAudioZone newMixer (z1Config origin))) ([], NoMessage))
      = Some [(''L1'', 0)]"
proof -
  have d0: "zoneDistance (northOf 0) (makeZone (z1Config origin)) = 0"
    by (intro zoneDistance_north) (auto simp: z1_fields)
  have d90: "zoneDistance (northOf 90) (makeZone (z1Config origin)) = 90"
    by (intro zoneDistance_north) (auto simp: z1_fields)
  have d150: "zoneDistance (northOf 150) (makeZone (z1Config origin)) = 150"
    by (intro zoneDistance_north) (auto simp: z1_fields)
  show ?thesis
    using zone_contribution_piecewise [of "makeZone (z1Config origin)" "northOf 0" origin NoMessage]
      zone_contribution_piecewise [of "makeZone (z1Config origin)" "northOf 90" origin NoMessage]
      zone_contribution_piecewise [of "makeZone (z1Config origin)" "northOf 150" origin NoMessage]
      d0 d90 d150
    by simp
qed

text \<open>
  Claim C2. For every layer and every position, the target volume that step 2 of
  \<open>updateLocationAudio\<close> computes for the layer is the maximum of 0 and the contributions
  of the non-oneshot zones whose layer list contains the layer; when there is such a
  zone and no \<open>maxVolume\<close> is negative, it is the maximum of the contributions. With two
  zones of maximal volume 0.5 and 0.8 centred at the position and sharing a layer, the
  target of the layer is 0.8, in either order of registration.
\<close>

theorem layer_target_is_maximum:
  "(\<exists>m msg'. computeTargets p zs ([], msg) = Some (m, msg') \<and>
       getOrZero m l = Max (insert 0 (contributions p zs l)) \<and>
       (contributions p zs l \<noteq> {} \<and> (\<forall>z \<in> set zs. 0 \<le> maxVolume z) \<longrightarrow>
          getOrZero m l = Max (contributions p zs l)))
   \<and> (0 \<le> ra \<and> 0 \<le> rb \<and> p = \<lparr> latitude = lat c, longitude = lng c \<rparr> \<longrightarrow>
        map_option fst (computeTargets p
          (audioZones (addAudioZone (addAudioZone newMixer
             (sharedLayerConfig ''a'' c ra (1 / 2))) (sharedLayerConfig ''b'' c rb (4 / 5))))
          ([], msg)) = Some [(''L'', 4 / 5)] \<and>
        map_option fst (computeTargets p
          (audioZones (addAudioZone (addAudioZone newMixer
             (sharedLayerConfig ''b'' c rb (4 / 5))) (sharedLayerConfig ''a'' c ra (1 / 2))))
          ([], msg)) = Some [(''L'', 4 / 5)])"
proof -
  obtain m msg' where run: "computeTargets p zs ([], msg) = Some (m, msg')"
    using computeTargets_total by blast
  have mx: "getOrZero m l = Max (insert 0 (contributions p zs l))"
    using computeTargets_max [OF run, of l] by (simp add: getOrZero_empty)
  have pos: "getOrZero m l = Max (contributions p zs l)"
    if ne: "contributions p zs l \<noteq> {}" and nn: "\<forall>z \<in> set zs. 0 \<le> maxVolume z"
  proof -
    have "0 \<le> Max (contributions p zs l)"
      using ne finite_contributions [of p zs l] contributions_nonneg [OF nn]
      by (meson Max_in)
    then show ?thesis
      using mx ne finite_contributions [of p zs l] by (simp add: max_def)
  qed
  have scen: "map_option fst (computeTargets p
        [makeZone (sharedLayerConfig n1 c r1 v1), makeZone (sharedLayerConfig n2 c r2 v2)]
        ([], msg)) = Some [(''L'', max v1 v2)]"
    if "0 \<le> r1" "0 \<le> r2" "0 < v1" "0 < v2"
       "p = \<lparr> latitude = lat c, longitude = lng c \<rparr>" for n1 n2 r1 r2 v1 v2
  proof -
    have d: "zoneDistance p (makeZone (sharedLayerConfig n c r v)) = 0" for n r v
      using that(5) zoneDistance_at_center [of "makeZone (sharedLayerConfig n c r v)"]
      by (simp add: makeZone_def sharedLayerConfig_def)
    have f: "specContribution (makeZone (sharedLayerConfig n c r v)) 0 = falsyOr (Some v) 1"
      if "0 \<le> r" for n r v
      using that by (simp add: specContribution_def makeZone_def sharedLayerConfig_def)
    have g: "\<not> isOneshot (makeZone (sharedLayerConfig n c r v))"
      "zoneLayers (makeZone (sharedLayerConfig n c r v)) = [''L'']" for n r v
      by (simp_all add: makeZone_def sharedLayerConfig_def falsyOrBool_def)
    show ?thesis
      using that(1-4)
      by (simp add: zoneVolume_spec d f g getOrZero_map_of falsyOr_def max_def)
  qed
  have z2: "audioZones (addAudioZone (addAudioZone newMixer c1) c2) = [makeZone c1, makeZone c2]"
    for c1 c2
    by (simp add: addAudioZone_def newMixer_def)
  show ?thesis
    using run mx pos scen [of ra rb "1 / 2" "4 / 5" "''a''" "''b''"]
      scen [of rb ra "4 / 5" "1 / 2" "''b''" "''a''"]
    by (simp add: z2)
qed

theorem layer_target_is_maximum_witness:
  "contributions \<lparr> latitude = 0, longitude = 0 \<rparr>
       (audioZones (addAudioZone (addAudioZone newMixer
          (sharedLayerConfig ''a'' origin 100 (1 / 2)))
          (sharedLayerConfig ''b'' origin 60 (4 / 5)))) ''L'' = {1 / 2, 4 / 5}
   \<and> (\<exists>m msg'. computeTargets \<lparr> latitude = 0, longitude = 0 \<rparr>
          (audioZones (addAudioZone (addAudioZone newMixer
             (sharedLayerConfig ''a'' origin 100 (1 / 2)))
             (sharedLayerConfig ''b'' origin 60 (4 / 5)))) ([], NoMessage) = Some (m, msg')
        \<and> getOrZero m ''L'' = 4 / 5)
   \<and> map_option fst (computeTargets \<lparr> latitude = 0, longitude = 0 \<rparr>
          (audioZones (addAudioZone (addAudioZone newMixer
             (sharedLayerConfig ''a'' origin 100 (1 / 2)))
             (sharedLayerConfig ''b'' origin 60 (4 / 5)))) ([], NoMessage))
      = Some [(''L'', 4 / 5)]"
proof -
  let ?p = "\<lparr> latitude = 0, longitude = 0 \<rparr>"
  let ?a = "makeZone (sharedLayerConfig ''a'' origin 100 (1 / 2))"
  let ?b = "makeZone (sharedLayerConfig ''b'' origin 60 (4 / 5))"
  let ?zs = "audioZones (addAudioZone (addAudioZone newMixer
          (sharedLayerConfig ''a'' origin 100 (1 / 2)))
          (sharedLayerConfig ''b'' origin 60 (4 / 5)))"
  have zs: "?zs = [?a, ?b]" by (simp add: addAudioZone_def newMixer_def)
  have da: "zoneDistance ?p ?a = 0"
    using zoneDistance_at_center [of ?a]
    by (simp add: makeZone_def sharedLayerConfig_def origin_def)
  have db: "zoneDistance ?p ?b = 0"
    using zoneDistance_at_center [of ?b]
    by (simp add: makeZone_def sharedLayerConfig_def origin_def)
  have va: "specContribution ?a 0 = 1 / 2"
    by (simp add: specContribution_def makeZone_def sharedLayerConfig_def falsyOr_def)
  have vb: "specContribution ?b 0 = 4 / 5"
    by (simp add: specContribution_def makeZone_def sharedLayerConfig_def falsyOr_def)
  have fl: "\<not> isOneshot ?a" "\<not> isOneshot ?b" "zoneLayers ?a = [''L'']" "zoneLayers ?b = [''L'']"
    "maxVolume ?a = 1 / 2" "maxVolume ?b = 4 / 5"
    by (simp_all add: makeZone_def sharedLayerConfig_def falsyOrBool_def falsyOr_def)
  have c: "contributions ?p ?zs ''L'' = {1 / 2, 4 / 5}"
    unfolding zs contributions_Cons by (simp add: fl da db va vb contributions_image)
  have nn: "\<forall>z \<in> set ?zs. 0 \<le> maxVolume z" unfolding zs by (simp add: fl)
  have mx: "Max {1 / 2, 4 / 5 :: real} = 4 / 5" by simp
  show ?thesis
    using layer_target_is_maximum [of ?p ?zs NoMessage "''L''" 100 60 origin] c nn mx
    by (auto simp: origin_def)
qed

text \<open>
  Claim C10. The volume computation of step 2 never divides by zero: for every zone and
  every distance \<open>zoneVolume\<close> yields a number, because inside the radius a zero fade
  distance puts the distance at or below the fade start, so the ramp is not reached.
  \<open>addAudioZone\<close> moreover never stores a zero fade distance. So step 2 yields a map of
  targets for every registry and position, and \<open>updateLocationAudio\<close> never ends with a
  volume that is not a number.
\<close>

theorem volume_never_divides_by_zero:
  "zoneVolume z d \<noteq> None
   \<and> (fadeDistance z = 0 \<and> d \<le> radius z \<longrightarrow> d \<le> max 0 (radius z - fadeDistance z))
   \<and> (max 0 (radius z - fadeDistance z) < d \<and> d \<le> radius z \<longrightarrow>
        fadeDistance z \<noteq> 0 \<and>
        zoneVolume z d = Some (maxVolume z * ((radius z - d) / fadeDistance z)))
   \<and> fadeDistance (makeZone config) \<noteq> 0
   \<and> (\<forall>z' \<in> set (audioZones (addAudioZone newMixer config)). fadeDistance z' \<noteq> 0)
   \<and> computeTargets p zs acc \<noteq> None
   \<and> snd (snd (updateLocationAudio fetchOk s pos)) \<noteq> NonFiniteVolume"
proof -
  have 1: "zoneVolume z d \<noteq> None" by (simp add: zoneVolume_spec)
  have 2: "fadeDistance z = 0 \<and> d \<le> radius z \<longrightarrow> d \<le> max 0 (radius z - fadeDistance z)"
    by auto
  have 3: "max 0 (radius z - fadeDistance z) < d \<and> d \<le> radius z \<longrightarrow>
        fadeDistance z \<noteq> 0 \<and>
        zoneVolume z d = Some (maxVolume z * ((radius z - d) / fadeDistance z))"
    by (auto simp: zoneVolume_def jsDiv_def Let_def)
  have 4: "fadeDistance (makeZone config) \<noteq> 0"
    by (simp add: makeZone_def falsyOr_def split: option.splits)
  have 5: "\<forall>z' \<in> set (audioZones (addAudioZone newMixer config)). fadeDistance z' \<noteq> 0"
    using 4 by (simp add: addAudioZone_def newMixer_def)
  have 6: "computeTargets p zs acc \<noteq> None"
    using computeTargets_total [of p zs "fst acc" "snd acc"] by auto
  have tot: "computeTargets p' zs' (m, msg) \<noteq> None" for p' zs' m msg
    using computeTargets_total [of p' zs' m msg] by auto
  have 7: "snd (snd (updateLocationAudio fetchOk s pos)) \<noteq> NonFiniteVolume"
    by (auto simp: updateLocationAudio_def Let_def tot split: option.splits prod.splits)
  show ?thesis using 1 2 3 4 5 6 7 by blast
qed

theorem volume_never_divides_by_zero_witness:
  "zoneVolume (makeZone (z1Config origin)) 90 = Some (1 / 2)
   \<and> max 0 (radius (makeZone (z1Config origin)) - fadeDistance (makeZone (z1Config origin))) < 90
   \<and> 90 \<le> radius (makeZone (z1Config origin))
   \<and> fadeDistance (makeZone (z1Config origin)) = 20
   \<and> fadeDistance (makeZone ((z1Config origin)\<lparr>cfgFadeDistance := Some 0\<rparr>)) = 50
   \<and> zoneVolume (makeZone ((z1Config origin)\<lparr>cfgFadeDistance := Some 0\<rparr>)) 90 \<noteq> None
   \<and> fadeDistance ((makeZone (z1Config origin))\<lparr>fadeDistance := 0\<rparr>) = 0
   \<and> 90 \<le> radius ((makeZone (z1Config origin))\<lparr>fadeDistance := 0\<rparr>)
   \<and> 90 \<le> max 0 (radius ((makeZone (z1Config origin))\<lparr>fadeDistance := 0\<rparr>)
                    - fadeDistance ((makeZone (z1Config origin))\<lparr>fadeDistance := 0\<rparr>))
   \<and> zoneVolume ((makeZone (z1Config origin))\<lparr>fadeDistance := 0\<rparr>) 90 \<noteq> None"
  using volume_never_divides_by_zero
    [of "makeZone (z1Config origin)" 90 "z1Config origin"]
    volume_never_divides_by_zero
    [of "makeZone ((z1Config origin)\<lparr>cfgFadeDistance := Some 0\<rparr>)" 90
        "(z1Config origin)\<lparr>cfgFadeDistance := Some 0\<rparr>"]
    volume_never_divides_by_zero
    [of "(makeZone (z1Config origin))\<lparr>fadeDistance := 0\<rparr>" 90 "z1Config origin"]
  by (simp add: z1_fields) (simp add: makeZone_def z1Config_def falsyOr_def)

text \<open>
  Claim C6, as the code has it. \<open>addAudioZone\<close> does not look at the radius: every zone
  definition, also one with radius 0 or below, is appended to the registry, which grows
  by one zone, stored with the radius it was given.
\<close>

theorem addAudioZone_appends_any_radius:
  "audioZones (addAudioZone s config) = audioZones s @ [makeZone config]
   \<and> radius (makeZone config) = cfgRadius config
   \<and> length (audioZones (addAudioZone s config)) = Suc (length (audioZones s))"
  by (simp add: addAudioZone_def makeZone_def)

text \<open>
  Claim C6 fails as stated: a zone definition with radius -5 is added to an empty registry.
\<close>

theorem addAudioZone_rejects_radius_counterexample:
  "cfgRadius ((z1Config origin)\<lparr>cfgRadius := - 5\<rparr>) \<le> 0
   \<and> audioZones (addAudioZone newMixer ((z1Config origin)\<lparr>cfgRadius := - 5\<rparr>))
       \<noteq> audioZones newMixer
   \<and> map radius (audioZones (addAudioZone newMixer ((z1Config origin)\<lparr>cfgRadius := - 5\<rparr>)))
       = [- 5]"
  by (simp add: addAudioZone_def newMixer_def makeZone_def z1Config_def)

text \<open>
  Claim C7 at its failing input. \<open>addAudioZone\<close> takes each default with \<open>||\<close>: an absent
  fade distance becomes 50 and an absent maximal volume becomes 1, but so do an explicit
  fade distance of 0 and an explicit maximal volume of 0. The zone \<open>z1\<close> registered with
  fade distance 0 is stored with fade distance 50, and at distance 90 of its radius 100
  it contributes 1/5 of its maximal volume, not all of it.
\<close>

theorem addAudioZone_replaces_explicit_zero:
  "fadeDistance (makeZone ((z1Config origin)\<lparr>cfgFadeDistance := None\<rparr>)) = 50
   \<and> maxVolume (makeZone ((z1Config origin)\<lparr>cfgMaxVolume := None\<rparr>)) = 1
   \<and> fadeDistance (makeZone ((z1Config origin)\<lparr>cfgFadeDistance := Some 30\<rparr>)) = 30
   \<and> map fadeDistance
        (audioZones (addAudioZone newMixer ((z1Config origin)\<lparr>cfgFadeDistance := Some 0\<rparr>)))
      = [50]
   \<and> map maxVolume
        (audioZones (addAudioZone newMixer ((z1Config origin)\<lparr>cfgMaxVolume := Some 0\<rparr>)))
      = [1]
   \<and> zoneVolume (makeZone ((z1Config origin)\<lparr>cfgFadeDistance := Some 0\<rparr>)) 90 = Some (1 / 5)"
  by (simp add: addAudioZone_def newMixer_def makeZone_def z1Config_def falsyOr_def
        zoneVolume_def jsDiv_def)

section \<open>What the mixing steps leave alone\<close>

lemma sameSession_refl: "sameSession s s"
  by (simp add: sameSession_def)

lemma sameSession_trans: "sameSession s t \<Longrightarrow> sameSession t u \<Longrightarrow> sameSession s u"
  by (simp add: sameSession_def)

lemma sameSession_fold:
  assumes "\<And>x t. sameSession t (f x t)"
  shows "sameSession s (fold f xs s)"
proof (induction xs arbitrary: s)
  case Nil
  show ?case by (simp add: sameSession_refl)
next
  case (Cons x xs)
  have "sameSession s (f x s)" by (rule assms)
  moreover have "sameSession (f x s) (fold f xs (f x s))" by (rule Cons.IH)
  ultimately show ?case by (simp add: sameSession_trans [of s "f x s"])
qed

lemma sameSession_stopSource: "sameSession s (stopSource s n)"
  by (simp add: sameSession_def stopSource_def split: option.splits)

lemma sameSession_rampGain: "sameSession s (rampGain s g a b)"
  by (simp add: sameSession_def rampGain_def split: option.splits)

lemma sameSession_playLayer: "sameSession s (playLayer s l v b)"
  by (simp add: sameSession_def playLayer_def stopSource_def Let_def split: option.splits)

lemma sameSession_fadeLayer: "sameSession s (fadeLayer s l v d)"
  by (simp add: sameSession_def fadeLayer_def rampGain_def Let_def split: option.splits)

lemma sameSession_stopLayer: "sameSession s (stopLayer l s)"
  by (simp add: sameSession_def stopLayer_def stopSource_def Let_def split: option.splits)

lemma sameSession_startLayer: "sameSession s (startLayer l s)"
  by (simp add: sameSession_def startLayer_def Let_def split: option.splits)

lemma sameSession_startPart: "sameSession s (startPart s partId)"
proof -
  have "sameSession s (fold startLayer ls s)" for ls
    by (rule sameSession_fold) (rule sameSession_startLayer)
  then have "sameSession s ((fold startLayer ls s)\<lparr>startedParts := A, lastDebugMessage := m\<rparr>)"
    for ls A m
    by (simp add: sameSession_def)
  then show ?thesis
    by (simp add: startPart_def Let_def sameSession_refl split: option.splits)
       (simp add: sameSession_def)
qed

lemma sameSession_loadAudio: "sameSession s (loadAudio s u l)"
  by (simp add: sameSession_def loadAudio_def Let_def)

lemma sameSession_ensureLayerLoaded: "sameSession s (snd (ensureLayerLoaded f s l))"
  by (simp add: ensureLayerLoaded_def sameSession_refl sameSession_loadAudio
        split: option.splits)

lemma sameSession_loadAll: "sameSession s (snd (loadAll f s ls))"
proof (induction ls arbitrary: s)
  case Nil
  show ?case by (simp add: sameSession_refl)
next
  case (Cons l ls)
  have "sameSession s (snd (ensureLayerLoaded f s l))"
    by (rule sameSession_ensureLayerLoaded)
  moreover have "sameSession (snd (ensureLayerLoaded f s l))
                   (snd (loadAll f (snd (ensureLayerLoaded f s l)) ls))"
    by (rule Cons.IH)
  ultimately show ?case
    by (auto simp: split_def dest: sameSession_trans)
qed

lemma sameSession_startQueuedParts: "sameSession s (snd (startQueuedParts f s ps))"
proof (induction ps arbitrary: s)
  case Nil
  show ?case by (simp add: sameSession_refl)
next
  case (Cons partId ps)
  define r where "r = (case partToLayers s partId of
                         None \<Rightarrow> (None, s) | Some layerSet \<Rightarrow> loadAll f s layerSet)"
  have r: "sameSession s (snd r)"
    by (simp add: r_def sameSession_refl sameSession_loadAll split: option.splits)
  show ?case
  proof (cases "fst r")
    case None
    then have eq: "startQueuedParts f s (partId # ps)
        = startQueuedParts f (startPart (snd r) partId) ps"
      by (cases r) (simp add: r_def)
    have "sameSession (snd r) (startPart (snd r) partId)" by (rule sameSession_startPart)
    with r have "sameSession s (startPart (snd r) partId)" by (rule sameSession_trans)
    moreover have "sameSession (startPart (snd r) partId)
        (snd (startQueuedParts f (startPart (snd r) partId) ps))"
      by (rule Cons.IH)
    ultimately show ?thesis unfolding eq by (rule sameSession_trans)
  next
    case (Some failed)
    then have "startQueuedParts f s (partId # ps) = (Some failed, snd r)"
      by (cases r) (simp add: r_def)
    with r show ?thesis by simp
  qed
qed

lemma sameSession_mixLayer: "sameSession s (mixLayer m l s)"
proof -
  have "sameSession s ((fadeLayer s l v d)\<lparr>timers := ts\<rparr>)" for v d ts
    using sameSession_fadeLayer [of s l v d] by (simp add: sameSession_def)
  then show ?thesis
    by (simp add: mixLayer_def Let_def sameSession_refl sameSession_playLayer
          sameSession_fadeLayer split: option.splits)
qed

lemma sameSession_applyFades: "sameSession s (applyFades m s)"
  unfolding applyFades_def by (rule sameSession_fold) (rule sameSession_mixLayer)

lemma sameSession_duckMusicBus: "sameSession s (duckMusicBus s g d)"
  by (simp add: sameSession_def duckMusicBus_def)


section \<open>The oneshot loop\<close>

lemma oneshotZone_eq:
  "oneshotZone p z (s, fired) =
     (if oneshotFires p s z
      then (s\<lparr>playedOneshots := insert (zoneId z) (playedOneshots s),
              lastDebugMessage := Triggered (zoneId z) (zoneDistance p z)\<rparr>, fired @ [z])
      else (if isOneshot z \<and> zoneDistance p z \<le> triggerRadius z \<and>
               zoneId z \<notin> playedOneshots s \<and> zoneId z = finaleZoneId \<and>
               oneshot9ZoneId \<notin> playedOneshots s
            then s\<lparr>lastDebugMessage := FinaleLocked\<rparr> else s, fired))"
proof (cases "isOneshot z")
  case False
  then show ?thesis
    unfolding oneshotZone_def oneshotFires_def Let_def by simp
next
  case one: True
  show ?thesis
  proof (cases "zoneDistance p z \<le> triggerRadius z")
    case False
    with one show ?thesis
      unfolding oneshotZone_def oneshotFires_def Let_def by simp
  next
    case inrange: True
    show ?thesis
    proof (cases "zoneId z \<in> playedOneshots s")
      case True
      with one inrange show ?thesis
        unfolding oneshotZone_def oneshotFires_def Let_def by simp
    next
      case fresh: False
      show ?thesis
      proof (cases "zoneId z = finaleZoneId")
        case True
        with one inrange fresh show ?thesis
          unfolding oneshotZone_def oneshotFires_def Let_def by simp
      next
        case False
        with one inrange fresh show ?thesis
          unfolding oneshotZone_def oneshotFires_def Let_def by simp
      qed
    qed
  qed
qed

lemma oneshot_loop_completed:
  assumes "finaleZoneId \<in> playedOneshots s"
  shows "fold (oneshotZone p) zs (s, fired) = (s, fired)"
  using assms by (induction zs) (auto simp: oneshotZone_eq oneshotFires_def)

lemma oneshot_loop:
  assumes "fold (oneshotZone p) zs (s, fired) = (s', fired')"
  shows "\<exists>new. fired' = fired @ new
     \<and> playedOneshots s' = playedOneshots s \<union> zoneId ` set new
     \<and> set new \<subseteq> set zs \<and> distinct (map zoneId new)
     \<and> zoneId ` set new \<inter> playedOneshots s = {}
     \<and> (\<forall>z \<in> set new. isOneshot z \<and> zoneDistance p z \<le> triggerRadius z)
     \<and> (finaleZoneId \<in> zoneId ` set new \<longrightarrow> oneshot9ZoneId \<in> playedOneshots s')
     \<and> s' = s\<lparr>playedOneshots := playedOneshots s', lastDebugMessage := lastDebugMessage s'\<rparr>"
  using assms
proof (induction zs arbitrary: s fired)
  case Nil
  then show ?case by auto
next
  case (Cons z zs)
  show ?case
  proof (cases "oneshotFires p s z")
    case True
    define s1 where "s1 = s\<lparr>playedOneshots := insert (zoneId z) (playedOneshots s),
              lastDebugMessage := Triggered (zoneId z) (zoneDistance p z)\<rparr>"
    from Cons.prems True have "fold (oneshotZone p) zs (s1, fired @ [z]) = (s', fired')"
      by (simp add: oneshotZone_eq s1_def)
    from Cons.IH [OF this] obtain new where new:
      "fired' = (fired @ [z]) @ new"
      "playedOneshots s' = playedOneshots s1 \<union> zoneId ` set new"
      "set new \<subseteq> set zs" "distinct (map zoneId new)"
      "zoneId ` set new \<inter> playedOneshots s1 = {}"
      "\<forall>z \<in> set new. isOneshot z \<and> zoneDistance p z \<le> triggerRadius z"
      "finaleZoneId \<in> zoneId ` set new \<longrightarrow> oneshot9ZoneId \<in> playedOneshots s'"
      "s' = s1\<lparr>playedOneshots := playedOneshots s', lastDebugMessage := lastDebugMessage s'\<rparr>"
      by blast
    have p1: "playedOneshots s1 = insert (zoneId z) (playedOneshots s)"
      by (simp add: s1_def)
    have a: "fired' = fired @ (z # new)" using new(1) by simp
    have b: "playedOneshots s' = playedOneshots s \<union> zoneId ` set (z # new)"
      using new(2) p1 by auto
    have c: "set (z # new) \<subseteq> set (z # zs)" using new(3) by auto
    have d: "distinct (map zoneId (z # new))" using new(4,5) p1 by auto
    have e: "zoneId ` set (z # new) \<inter> playedOneshots s = {}"
      using new(5) p1 True by (auto simp: oneshotFires_def)
    have f: "\<forall>z' \<in> set (z # new). isOneshot z' \<and> zoneDistance p z' \<le> triggerRadius z'"
      using new(6) True by (auto simp: oneshotFires_def)
    have g: "finaleZoneId \<in> zoneId ` set (z # new) \<longrightarrow> oneshot9ZoneId \<in> playedOneshots s'"
      using new(7) True b by (auto simp: oneshotFires_def)
    have h: "s' = s\<lparr>playedOneshots := playedOneshots s', lastDebugMessage := lastDebugMessage s'\<rparr>"
      using new(8) by (simp add: s1_def)
    show ?thesis using a b c d e f g h by blast
  next
    case False
    define s1 where "s1 = (if isOneshot z \<and> zoneDistance p z \<le> triggerRadius z \<and>
               zoneId z \<notin> playedOneshots s \<and> zoneId z = finaleZoneId \<and>
               oneshot9ZoneId \<notin> playedOneshots s
            then s\<lparr>lastDebugMessage := FinaleLocked\<rparr> else s)"
    from Cons.prems False have "fold (oneshotZone p) zs (s1, fired) = (s', fired')"
      by (simp add: oneshotZone_eq s1_def)
    from Cons.IH [OF this] obtain new where new:
      "fired' = fired @ new"
      "playedOneshots s' = playedOneshots s1 \<union> zoneId ` set new"
      "set new \<subseteq> set zs" "distinct (map zoneId new)"
      "zoneId ` set new \<inter> playedOneshots s1 = {}"
      "\<forall>z \<in> set new. isOneshot z \<and> zoneDistance p z \<le> triggerRadius z"
      "finaleZoneId \<in> zoneId ` set new \<longrightarrow> oneshot9ZoneId \<in> playedOneshots s'"
      "s' = s1\<lparr>playedOneshots := playedOneshots s', lastDebugMessage := lastDebugMessage s'\<rparr>"
      by blast
    have p1: "playedOneshots s1 = playedOneshots s" by (simp add: s1_def)
    have c: "set new \<subseteq> set (z # zs)" using new(3) by auto
    have h: "s' = s\<lparr>playedOneshots := playedOneshots s', lastDebugMessage := lastDebugMessage s'\<rparr>"
      using new(8) by (simp add: s1_def split: if_splits)
    show ?thesis using new(1,2,4,5,6,7) p1 c h by auto
  qed
qed

lemma oneshot_loop_mono:
  assumes "fold (oneshotZone p) zs (s, fired) = (s', fired')"
  shows "playedOneshots s \<subseteq> playedOneshots s'"
  using oneshot_loop [OF assms] by auto

lemma oneshot_loop_in_range:
  assumes "fold (oneshotZone p) zs (s, fired) = (s', fired')"
    and "z \<in> set zs" "isOneshot z" "zoneDistance p z \<le> triggerRadius z"
  shows "zoneId z \<in> playedOneshots s'
       \<or> (finaleZoneId \<in> playedOneshots s' \<and> zoneId z \<noteq> finaleZoneId)
       \<or> (zoneId z = finaleZoneId \<and> oneshot9ZoneId \<notin> playedOneshots s)"
  using assms
proof (induction zs arbitrary: s fired)
  case Nil
  then show ?case by simp
next
  case (Cons y zs)
  obtain s1 f1 where step: "oneshotZone p y (s, fired) = (s1, f1)"
    by (cases "oneshotZone p y (s, fired)")
  with Cons.prems(1) have rest: "fold (oneshotZone p) zs (s1, f1) = (s', fired')" by simp
  have m1: "playedOneshots s \<subseteq> playedOneshots s1"
    using step by (auto simp: oneshotZone_eq split: if_splits)
  have m2: "playedOneshots s1 \<subseteq> playedOneshots s'"
    using rest by (rule oneshot_loop_mono)
  show ?case
  proof (cases "z = y")
    case True
    have "zoneId z \<in> playedOneshots s1
       \<or> (finaleZoneId \<in> playedOneshots s \<and> zoneId z \<noteq> finaleZoneId)
       \<or> (zoneId z = finaleZoneId \<and> oneshot9ZoneId \<notin> playedOneshots s)"
      using step True Cons.prems(3,4)
      by (auto simp: oneshotZone_eq oneshotFires_def split: if_splits)
    then show ?thesis using m1 m2 by blast
  next
    case False
    with Cons.prems(2) have "z \<in> set zs" by simp
    from Cons.IH [OF rest this Cons.prems(3,4)] show ?thesis using m1 by blast
  qed
qed

section \<open>One call and a session\<close>

lemma updateLocationAudio_not_ready:
  assumes "pos = None \<or> \<not> isInitialized s"
  shows "updateLocationAudio f s pos = (s, [], Returned)"
  using assms by (auto simp: updateLocationAudio_def isReady_def split: option.splits)

lemma updateLocationAudio_oneshots:
  assumes "isInitialized s" and "updateLocationAudio f s (Some p) = (s', fired, out)"
  shows "\<exists>s1. handleOneshots p s = (s1, fired) \<and> sameSession s1 s'"
proof -
  obtain s1 fired1 where h: "handleOneshots p s = (s1, fired1)"
    by (cases "handleOneshots p s")
  obtain m msg where c: "computeTargets p (audioZones s1) ([], lastDebugMessage s1) = Some (m, msg)"
    using computeTargets_total by blast
  define s2 where "s2 = s1\<lparr>lastDebugMessage := msg\<rparr>"
  define r where "r = startQueuedParts f s2 (partsToStart s2 m (map fst m) [])"
  have s12: "sameSession s1 s2" by (simp add: s2_def sameSession_def)
  have s2r: "sameSession s2 (snd r)"
    unfolding r_def by (rule sameSession_startQueuedParts)
  have s1r: "sameSession s1 (snd r)" using s12 s2r by (rule sameSession_trans)
  have eq: "updateLocationAudio f s (Some p) =
      (case r of (Some failed, s3) \<Rightarrow> (s3, fired1, Rejected failed)
               | (None, s3) \<Rightarrow> (applyFades m s3, fired1, Returned))"
    using assms(1) by (simp add: updateLocationAudio_def isReady_def h c s2_def r_def Let_def)
  show ?thesis
  proof (cases "fst r")
    case None
    then have "updateLocationAudio f s (Some p) = (applyFades m (snd r), fired1, Returned)"
      unfolding eq by (cases r) simp
    with assms(2) have "s' = applyFades m (snd r)" "fired = fired1" by simp_all
    moreover have "sameSession s1 (applyFades m (snd r))"
      using s1r sameSession_applyFades by (rule sameSession_trans)
    ultimately show ?thesis using h by simp
  next
    case (Some failed)
    then have "updateLocationAudio f s (Some p) = (snd r, fired1, Rejected failed)"
      unfolding eq by (cases r) simp
    with assms(2) have "s' = snd r" "fired = fired1" by simp_all
    then show ?thesis using h s1r by simp
  qed
qed

lemma update_call:
  assumes "updateLocationAudio f s pos = (s', fired, out)"
  shows "playedOneshots s' = playedOneshots s \<union> zoneId ` set fired"
    and "distinct (map zoneId fired)"
    and "zoneId ` set fired \<inter> playedOneshots s = {}"
    and "set fired \<subseteq> set (audioZones s)"
    and "audioZones s' = audioZones s"
    and "isInitialized s' = isInitialized s"
    and "finaleZoneId \<in> zoneId ` set fired \<longrightarrow> oneshot9ZoneId \<in> playedOneshots s'"
    and "finaleZoneId \<in> playedOneshots s \<longrightarrow> fired = []"
    and "\<forall>z \<in> set fired. isOneshot z \<and>
           (\<exists>p. pos = Some p \<and> zoneDistance p z \<le> triggerRadius z)"
proof -
  have all: "playedOneshots s' = playedOneshots s \<union> zoneId ` set fired
    \<and> distinct (map zoneId fired)
    \<and> zoneId ` set fired \<inter> playedOneshots s = {}
    \<and> set fired \<subseteq> set (audioZones s)
    \<and> audioZones s' = audioZones s
    \<and> isInitialized s' = isInitialized s
    \<and> (finaleZoneId \<in> zoneId ` set fired \<longrightarrow> oneshot9ZoneId \<in> playedOneshots s')
    \<and> (finaleZoneId \<in> playedOneshots s \<longrightarrow> fired = [])
    \<and> (\<forall>z \<in> set fired. isOneshot z \<and>
           (\<exists>p. pos = Some p \<and> zoneDistance p z \<le> triggerRadius z))"
  proof (cases "pos = None \<or> \<not> isInitialized s")
    case True
    from updateLocationAudio_not_ready [OF this, of f] assms show ?thesis by simp
  next
    case False
    then obtain p where p: "pos = Some p" and init: "isInitialized s" by auto
    from updateLocationAudio_oneshots [OF init] assms p
    obtain s1 where h: "handleOneshots p s = (s1, fired)" and same: "sameSession s1 s'"
      by blast
    from h have loop: "fold (oneshotZone p) (audioZones s) (s, []) = (s1, fired)"
      by (simp add: handleOneshots_def)
    from oneshot_loop [OF loop] obtain new where new:
      "fired = [] @ new"
      "playedOneshots s1 = playedOneshots s \<union> zoneId ` set new"
      "set new \<subseteq> set (audioZones s)" "distinct (map zoneId new)"
      "zoneId ` set new \<inter> playedOneshots s = {}"
      "\<forall>z \<in> set new. isOneshot z \<and> zoneDistance p z \<le> triggerRadius z"
      "finaleZoneId \<in> zoneId ` set new \<longrightarrow> oneshot9ZoneId \<in> playedOneshots s1"
      "s1 = s\<lparr>playedOneshots := playedOneshots s1, lastDebugMessage := lastDebugMessage s1\<rparr>"
      by blast
    have fn: "new = fired" using new(1) by simp
    have z1: "audioZones s1 = audioZones s" "isInitialized s1 = isInitialized s"
      by (subst new(8), simp)+
    have fin: "finaleZoneId \<in> playedOneshots s \<longrightarrow> fired = []"
      using loop oneshot_loop_completed [of s p "audioZones s" "[]"] by auto
    show ?thesis
      using new(2-7) same z1 fin p unfolding fn sameSession_def by auto
  qed
  from all show "playedOneshots s' = playedOneshots s \<union> zoneId ` set fired" by (elim conjE) assumption
  from all show "distinct (map zoneId fired)" by (elim conjE) assumption
  from all show "zoneId ` set fired \<inter> playedOneshots s = {}" by (elim conjE) assumption
  from all show "set fired \<subseteq> set (audioZones s)" by (elim conjE) assumption
  from all show "audioZones s' = audioZones s" by (elim conjE) assumption
  from all show "isInitialized s' = isInitialized s" by (elim conjE) assumption
  from all show "finaleZoneId \<in> zoneId ` set fired \<longrightarrow> oneshot9ZoneId \<in> playedOneshots s'" by (elim conjE) assumption
  from all show "finaleZoneId \<in> playedOneshots s \<longrightarrow> fired = []" by (elim conjE) assumption
  from all show "\<forall>z \<in> set fired. isOneshot z \<and>
           (\<exists>p. pos = Some p \<and> zoneDistance p z \<le> triggerRadius z)" by (elim conjE) assumption
qed

lemma update_call_in_range:
  assumes "isInitialized s" and "updateLocationAudio f s (Some p) = (s', fired, out)"
    and "z \<in> set (audioZones s)" "isOneshot z" "zoneDistance p z \<le> triggerRadius z"
  shows "zoneId z \<in> playedOneshots s'
       \<or> (finaleZoneId \<in> playedOneshots s' \<and> zoneId z \<noteq> finaleZoneId)
       \<or> (zoneId z = finaleZoneId \<and> oneshot9ZoneId \<notin> playedOneshots s)"
proof -
  from updateLocationAudio_oneshots [OF assms(1,2)]
  obtain s1 where h: "handleOneshots p s = (s1, fired)" and same: "sameSession s1 s'"
    by blast
  from h have loop: "fold (oneshotZone p) (audioZones s) (s, []) = (s1, fired)"
    by (simp add: handleOneshots_def)
  from oneshot_loop_in_range [OF loop assms(3,4,5)] same
  show ?thesis by (simp add: sameSession_def)
qed

lemma session_run:
  assumes "runSession f s ps = (t, F)"
  shows "playedOneshots t = playedOneshots s \<union> zoneId ` set F"
    and "distinct (map zoneId F)"
    and "zoneId ` set F \<inter> playedOneshots s = {}"
    and "set F \<subseteq> set (audioZones s)"
    and "audioZones t = audioZones s"
    and "isInitialized t = isInitialized s"
    and "finaleZoneId \<in> playedOneshots s \<longrightarrow> F = []"
proof -
  have all: "playedOneshots t = playedOneshots s \<union> zoneId ` set F
      \<and> distinct (map zoneId F)
      \<and> zoneId ` set F \<inter> playedOneshots s = {}
      \<and> set F \<subseteq> set (audioZones s)
      \<and> audioZones t = audioZones s
      \<and> isInitialized t = isInitialized s
      \<and> (finaleZoneId \<in> playedOneshots s \<longrightarrow> F = [])"
    using assms
  proof (induction ps arbitrary: s t F)
    case Nil
    then show ?case by simp
  next
    case (Cons pos ps)
    obtain s1 fired out where u: "updateLocationAudio f s pos = (s1, fired, out)"
      by (cases "updateLocationAudio f s pos")
    obtain s2 F' where r: "runSession f s1 ps = (s2, F')"
      by (cases "runSession f s1 ps")
    from Cons.prems u r have tF: "t = s2" "F = fired @ F'" by simp_all
    note c = update_call [OF u]
    from Cons.IH [OF r] have ih:
      "playedOneshots s2 = playedOneshots s1 \<union> zoneId ` set F'"
      "distinct (map zoneId F')"
      "zoneId ` set F' \<inter> playedOneshots s1 = {}"
      "set F' \<subseteq> set (audioZones s1)"
      "audioZones s2 = audioZones s1"
      "isInitialized s2 = isInitialized s1"
      "finaleZoneId \<in> playedOneshots s1 \<longrightarrow> F' = []"
      by blast+
    have 1: "playedOneshots t = playedOneshots s \<union> zoneId ` set F"
      using c(1) ih(1) tF by auto
    have 2: "distinct (map zoneId F)"
      using c(1,2) ih(2,3) tF by auto
    have 3: "zoneId ` set F \<inter> playedOneshots s = {}"
      using c(1,3) ih(3) tF by auto
    have 4: "set F \<subseteq> set (audioZones s)"
      using c(4,5) ih(4) tF by auto
    have 5: "audioZones t = audioZones s" "isInitialized t = isInitialized s"
      using c(5,6) ih(5,6) tF by auto
    have 6: "finaleZoneId \<in> playedOneshots s \<longrightarrow> F = []"
      using c(1,8) ih(7) tF by auto
    show ?case using 1 2 3 4 5 6 by blast
  qed
  from all show "playedOneshots t = playedOneshots s \<union> zoneId ` set F" by (elim conjE) assumption
  from all show "distinct (map zoneId F)" by (elim conjE) assumption
  from all show "zoneId ` set F \<inter> playedOneshots s = {}" by (elim conjE) assumption
  from all show "set F \<subseteq> set (audioZones s)" by (elim conjE) assumption
  from all show "audioZones t = audioZones s" by (elim conjE) assumption
  from all show "isInitialized t = isInitialized s" by (elim conjE) assumption
  from all show "finaleZoneId \<in> playedOneshots s \<longrightarrow> F = []" by (elim conjE) assumption
qed


section \<open>Scenario states\<close>

lemma fold_addAudioZone:
  "fold (\<lambda>config s. addAudioZone s config) cs s
     = s\<lparr>audioZones := audioZones s @ map makeZone cs\<rparr>"
  by (induction cs arbitrary: s) (simp_all add: addAudioZone_def)

lemma mixerWith_eq:
  "mixerWith cs = newMixer\<lparr>audioZones := map makeZone cs, isInitialized := True\<rparr>"
  by (simp add: mixerWith_def fold_addAudioZone initialize_def newMixer_def)

lemma mixerWith_fields:
  "audioZones (mixerWith cs) = map makeZone cs" "playedOneshots (mixerWith cs) = {}"
  "isInitialized (mixerWith cs)" "audioLayers (mixerWith cs) = []"
  by (simp_all add: mixerWith_eq newMixer_def)

lemma oneshotConfig_fields:
  "zoneId (makeZone (oneshotConfig n c ls)) = n" "isOneshot (makeZone (oneshotConfig n c ls))"
  "center (makeZone (oneshotConfig n c ls)) = c"
  "zoneLayers (makeZone (oneshotConfig n c ls)) = ls"
  "triggerRadius (makeZone (oneshotConfig n c ls)) = 10"
  by (simp_all add: makeZone_def oneshotConfig_def falsyOrBool_def triggerRadius_def falsyOr_def)

lemma zoneDistance_scenarios:
  "center z = origin \<Longrightarrow> zoneDistance atOrigin z = 0"
  "center z = centerNorth 1000 \<Longrightarrow> zoneDistance atOrigin z = 1000"
  "center z = origin \<Longrightarrow> zoneDistance (northOf 1000) z = 1000"
  "center z = centerNorth 1000 \<Longrightarrow> zoneDistance (northOf 1000) z = 0"
proof -
  have n: "calculateDistance 0 0 (1000 * 180 / (6371000 * pi)) 0 = 1000"
    "calculateDistance (1000 * 180 / (6371000 * pi)) 0 0 0 = 1000"
    using calculateDistance_north [of 1000] by simp_all
  show "center z = origin \<Longrightarrow> zoneDistance atOrigin z = 0"
    by (simp add: zoneDistance_def atOrigin_def origin_def calculateDistance_self)
  show "center z = centerNorth 1000 \<Longrightarrow> zoneDistance atOrigin z = 1000"
    using n(1) by (simp add: zoneDistance_def atOrigin_def centerNorth_def)
  show "center z = origin \<Longrightarrow> zoneDistance (northOf 1000) z = 1000"
    using n(2) by (simp add: zoneDistance_def northOf_def origin_def)
  show "center z = centerNorth 1000 \<Longrightarrow> zoneDistance (northOf 1000) z = 0"
    by (simp add: zoneDistance_def northOf_def centerNorth_def calculateDistance_self)
qed

lemma only_oneshots_call:
  assumes "isInitialized s" "audioLayers s = []" "\<forall>z \<in> set (audioZones s). isOneshot z"
  shows "updateLocationAudio f s (Some p) =
           (fst (handleOneshots p s), snd (handleOneshots p s), Returned)"
proof -
  obtain s1 fired where h: "handleOneshots p s = (s1, fired)"
    by (cases "handleOneshots p s")
  then have loop: "fold (oneshotZone p) (audioZones s) (s, []) = (s1, fired)"
    by (simp add: handleOneshots_def)
  from oneshot_loop [OF loop]
  have s1: "s1 = s\<lparr>playedOneshots := playedOneshots s1, lastDebugMessage := lastDebugMessage s1\<rparr>"
    by blast
  have z: "audioZones s1 = audioZones s" "audioLayers s1 = audioLayers s"
    by (subst s1, simp)+
  have c: "computeTargets p zs (m, msg) = Some (m, msg)"
    if "\<forall>z \<in> set zs. isOneshot z" for zs m msg
    using that by (induction zs) auto
  have c': "computeTargets p (audioZones s) ([], lastDebugMessage s1)
              = Some ([], lastDebugMessage s1)"
    using assms(3) by (intro c) simp
  have "s1\<lparr>lastDebugMessage := lastDebugMessage s1\<rparr> = s1" by simp
  then show ?thesis
    using assms(1,2) z
    by (simp add: updateLocationAudio_def isReady_def h c' applyFades_def)
qed


lemma fires_in_first_call:
  assumes init: "isInitialized s" and z: "z \<in> set (audioZones s)" "isOneshot z"
    and inrange: "zoneDistance p z \<le> triggerRadius z"
    and fresh: "zoneId z \<notin> playedOneshots s"
    and open_: "zoneId z = finaleZoneId \<and> oneshot9ZoneId \<in> playedOneshots s
              \<or> zoneId z \<noteq> finaleZoneId \<and> finaleZoneId \<notin> playedOneshots s \<and>
                (\<forall>y \<in> set (audioZones s). isOneshot y \<and> zoneId y = finaleZoneId \<longrightarrow>
                   triggerRadius y < zoneDistance p y)"
    and u: "updateLocationAudio f s (Some p) = (s1, fired, out)"
  shows "\<exists>z1 \<in> set fired. zoneId z1 = zoneId z"
proof -
  note c = update_call [OF u]
  from update_call_in_range [OF init u z inrange]
  have d: "zoneId z \<in> playedOneshots s1
       \<or> (finaleZoneId \<in> playedOneshots s1 \<and> zoneId z \<noteq> finaleZoneId)
       \<or> (zoneId z = finaleZoneId \<and> oneshot9ZoneId \<notin> playedOneshots s)" .
  have "zoneId z \<in> playedOneshots s1"
  proof (cases "zoneId z = finaleZoneId")
    case True
    with d open_ show ?thesis by blast
  next
    case False
    with open_ have nf: "finaleZoneId \<notin> playedOneshots s"
      and far: "\<forall>y \<in> set (audioZones s). isOneshot y \<and> zoneId y = finaleZoneId \<longrightarrow>
                   triggerRadius y < zoneDistance p y" by blast+
    have "finaleZoneId \<notin> zoneId ` set fired"
    proof
      assume "finaleZoneId \<in> zoneId ` set fired"
      then obtain y where y: "y \<in> set fired" "zoneId y = finaleZoneId" by auto
      with c(4) have "y \<in> set (audioZones s)" by blast
      moreover from c(9) y(1) have "isOneshot y" "zoneDistance p y \<le> triggerRadius y" by auto
      ultimately show False using far y(2) by force
    qed
    with nf c(1) have "finaleZoneId \<notin> playedOneshots s1" by simp
    with d False show ?thesis by blast
  qed
  with c(1) fresh show ?thesis by auto
qed

lemma scenario_ids:
  "finaleZoneId \<noteq> oneshot9ZoneId" "oneshot9ZoneId \<noteq> finaleZoneId"
  "zoneId (makeZone firstOneshot) \<noteq> finaleZoneId"
  "zoneId (makeZone secondOneshot) \<noteq> finaleZoneId"
  "zoneId (makeZone firstOneshot) \<noteq> oneshot9ZoneId"
  "zoneId (makeZone firstOneshot) \<noteq> zoneId (makeZone secondOneshot)"
  "zoneId (makeZone secondOneshot) \<noteq> zoneId (makeZone firstOneshot)"
  "zoneId (makeZone ninthOneshot) = oneshot9ZoneId"
  "zoneId (makeZone finaleOneshot) = finaleZoneId"
  by (simp_all add: finaleZoneId_def oneshot9ZoneId_def oneshotConfig_fields
        firstOneshot_def secondOneshot_def ninthOneshot_def finaleOneshot_def)

lemma scenario_zones:
  "isOneshot (makeZone firstOneshot)" "isOneshot (makeZone secondOneshot)"
  "isOneshot (makeZone ninthOneshot)" "isOneshot (makeZone finaleOneshot)"
  "triggerRadius (makeZone firstOneshot) = 10" "triggerRadius (makeZone secondOneshot) = 10"
  "triggerRadius (makeZone ninthOneshot) = 10" "triggerRadius (makeZone finaleOneshot) = 10"
  "zoneDistance atOrigin (makeZone firstOneshot) = 0"
  "zoneDistance atOrigin (makeZone secondOneshot) = 1000"
  "zoneDistance atOrigin (makeZone ninthOneshot) = 0"
  "zoneDistance atOrigin (makeZone finaleOneshot) = 0"
  "zoneDistance (northOf 1000) (makeZone firstOneshot) = 1000"
  "zoneDistance (northOf 1000) (makeZone secondOneshot) = 0"
  by (simp_all add: oneshotConfig_fields zoneDistance_scenarios
        firstOneshot_def secondOneshot_def ninthOneshot_def finaleOneshot_def)

text \<open>
  Claim C5. The finale zone \<open>oneshot_finale\<close> does not fire before its prerequisite
  \<open>oneshot_9\<close>: evaluating the finale zone while \<open>oneshot_9\<close> is not in
  \<open>playedOneshots\<close> leaves \<open>playedOneshots\<close> and the triggered zones as they are, and a
  call of \<open>updateLocationAudio\<close> after which \<open>oneshot_9\<close> has not played has not
  triggered the finale. Once \<open>oneshot_9\<close> has played, evaluating a position in range of
  the un-fired finale zone triggers it.
\<close>

theorem finale_waits_for_prerequisite:
  "(oneshot9ZoneId \<notin> playedOneshots (fst (updateLocationAudio f s pos)) \<longrightarrow>
      (\<forall>y \<in> set (fst (snd (updateLocationAudio f s pos))). zoneId y \<noteq> finaleZoneId) \<and>
      (finaleZoneId \<in> playedOneshots (fst (updateLocationAudio f s pos)) \<longrightarrow>
         finaleZoneId \<in> playedOneshots s))
   \<and> (zoneId z = finaleZoneId \<and> oneshot9ZoneId \<notin> playedOneshots s \<longrightarrow>
        playedOneshots (fst (oneshotZone p z (s, acc))) = playedOneshots s \<and>
        snd (oneshotZone p z (s, acc)) = acc)
   \<and> (isInitialized s \<and> z \<in> set (audioZones s) \<and> isOneshot z \<and> zoneId z = finaleZoneId \<and>
       zoneDistance p z \<le> triggerRadius z \<and> oneshot9ZoneId \<in> playedOneshots s \<and>
       finaleZoneId \<notin> playedOneshots s \<longrightarrow>
        finaleZoneId \<in> playedOneshots (fst (updateLocationAudio f s (Some p))) \<and>
        finaleZoneId \<in> zoneId ` set (fst (snd (updateLocationAudio f s (Some p)))))
   \<and> finaleZoneId = ''oneshot_finale'' \<and> oneshot9ZoneId = ''oneshot_9''"
proof -
  obtain s' fired out where u: "updateLocationAudio f s pos = (s', fired, out)"
    by (cases "updateLocationAudio f s pos")
  note c = update_call [OF u]
  have 1: "oneshot9ZoneId \<notin> playedOneshots (fst (updateLocationAudio f s pos)) \<longrightarrow>
      (\<forall>y \<in> set (fst (snd (updateLocationAudio f s pos))). zoneId y \<noteq> finaleZoneId) \<and>
      (finaleZoneId \<in> playedOneshots (fst (updateLocationAudio f s pos)) \<longrightarrow>
         finaleZoneId \<in> playedOneshots s)"
  proof -
    have "finaleZoneId \<notin> zoneId ` set fired" if "oneshot9ZoneId \<notin> playedOneshots s'"
      using c(7) that by blast
    then show ?thesis using c(1) u by force
  qed
  have 2: "zoneId z = finaleZoneId \<and> oneshot9ZoneId \<notin> playedOneshots s \<longrightarrow>
        playedOneshots (fst (oneshotZone p z (s, acc))) = playedOneshots s \<and>
        snd (oneshotZone p z (s, acc)) = acc"
    by (simp add: oneshotZone_eq oneshotFires_def)
  have 3: "finaleZoneId \<in> playedOneshots (fst (updateLocationAudio f s (Some p))) \<and>
        finaleZoneId \<in> zoneId ` set (fst (snd (updateLocationAudio f s (Some p))))"
    if h: "isInitialized s" "z \<in> set (audioZones s)" "isOneshot z" "zoneId z = finaleZoneId"
       "zoneDistance p z \<le> triggerRadius z" "oneshot9ZoneId \<in> playedOneshots s"
       "finaleZoneId \<notin> playedOneshots s"
  proof -
    obtain s1 fired1 out1 where u1: "updateLocationAudio f s (Some p) = (s1, fired1, out1)"
      by (cases "updateLocationAudio f s (Some p)")
    have "zoneId z \<notin> playedOneshots s" using h(4,7) by simp
    moreover have "zoneId z = finaleZoneId \<and> oneshot9ZoneId \<in> playedOneshots s
              \<or> zoneId z \<noteq> finaleZoneId \<and> finaleZoneId \<notin> playedOneshots s \<and>
                (\<forall>y \<in> set (audioZones s). isOneshot y \<and> zoneId y = finaleZoneId \<longrightarrow>
                   triggerRadius y < zoneDistance p y)"
      using h(4,6) by simp
    ultimately have "\<exists>z1 \<in> set fired1. zoneId z1 = zoneId z"
      using fires_in_first_call [OF h(1,2,3,5) _ _ u1] by blast
    then have f: "finaleZoneId \<in> zoneId ` set fired1" using h(4) by force
    then have "finaleZoneId \<in> playedOneshots s1" using update_call(1) [OF u1] by simp
    with f u1 show ?thesis by simp
  qed
  show ?thesis
    using 1 2 3 by (simp add: finaleZoneId_def [symmetric] oneshot9ZoneId_def [symmetric])
qed

lemma scenario_ids_sym:
  "finaleZoneId \<noteq> zoneId (makeZone firstOneshot)"
  "finaleZoneId \<noteq> zoneId (makeZone secondOneshot)"
  "oneshot9ZoneId \<noteq> zoneId (makeZone firstOneshot)"
  using scenario_ids(3,4,5) by auto

lemma scenario_id_values:
  "zoneId (makeZone firstOneshot) = ''oneshot_1''"
  "zoneId (makeZone secondOneshot) = ''oneshot_2''"
  by (simp_all add: oneshotConfig_fields firstOneshot_def secondOneshot_def)

lemma scenario_call:
  assumes "set cs \<subseteq> {firstOneshot, secondOneshot, ninthOneshot, finaleOneshot}"
    and "audioZones s = map makeZone cs" "isInitialized s" "audioLayers s = []"
  shows "updateLocationAudio f s (Some p) =
           (fst (handleOneshots p s), snd (handleOneshots p s), Returned)"
proof -
  have "\<forall>z \<in> set (audioZones s). isOneshot z"
    using assms(1,2) scenario_zones(1-4) by auto
  with assms(3,4) show ?thesis by (rule only_oneshots_call)
qed

lemma finale_alone_locked:
  "handleOneshots atOrigin (mixerWith [finaleOneshot])
     = ((mixerWith [finaleOneshot])\<lparr>lastDebugMessage := FinaleLocked\<rparr>, [])"
  by (simp add: handleOneshots_def mixerWith_fields oneshotZone_eq oneshotFires_def
        scenario_zones scenario_ids)

lemma finale_then_ninth:
  "handleOneshots atOrigin (mixerWith [finaleOneshot, ninthOneshot])
     = ((mixerWith [finaleOneshot, ninthOneshot])
          \<lparr>playedOneshots := {oneshot9ZoneId},
           lastDebugMessage := Triggered oneshot9ZoneId 0\<rparr>,
        [makeZone ninthOneshot])"
  by (simp add: handleOneshots_def mixerWith_fields oneshotZone_eq oneshotFires_def
        scenario_zones scenario_ids)

theorem finale_waits_for_prerequisite_witness:
  "playedOneshots (fst (oneshotZone atOrigin (makeZone finaleOneshot)
       (mixerWith [finaleOneshot], []))) = {}
   \<and> snd (oneshotZone atOrigin (makeZone finaleOneshot) (mixerWith [finaleOneshot], [])) = []
   \<and> oneshot9ZoneId \<notin> playedOneshots
       (fst (updateLocationAudio (\<lambda>u. True) (mixerWith [finaleOneshot]) (Some atOrigin)))
   \<and> zoneDistance atOrigin (makeZone finaleOneshot) \<le> triggerRadius (makeZone finaleOneshot)
   \<and> finaleZoneId \<notin> playedOneshots
       (fst (updateLocationAudio (\<lambda>u. True) (mixerWith [finaleOneshot]) (Some atOrigin)))
   \<and> oneshot9ZoneId \<in> playedOneshots
       (fst (updateLocationAudio (\<lambda>u. True) (mixerWith [finaleOneshot, ninthOneshot])
          (Some atOrigin)))
   \<and> finaleZoneId \<notin> playedOneshots
       (fst (updateLocationAudio (\<lambda>u. True) (mixerWith [finaleOneshot, ninthOneshot])
          (Some atOrigin)))
   \<and> finaleZoneId \<in> playedOneshots
       (fst (updateLocationAudio (\<lambda>u. True)
          (fst (updateLocationAudio (\<lambda>u. True) (mixerWith [finaleOneshot, ninthOneshot])
             (Some atOrigin)))
          (Some atOrigin)))"
proof -
  let ?f = "\<lambda>u::string. True"
  let ?a = "mixerWith [finaleOneshot]"
  let ?b = "mixerWith [finaleOneshot, ninthOneshot]"
  have ca: "updateLocationAudio ?f ?a (Some atOrigin)
      = (?a\<lparr>lastDebugMessage := FinaleLocked\<rparr>, [], Returned)"
    using scenario_call [of "[finaleOneshot]" ?a ?f atOrigin]
    by (simp add: mixerWith_fields finale_alone_locked)
  have cb: "updateLocationAudio ?f ?b (Some atOrigin)
      = (?b\<lparr>playedOneshots := {oneshot9ZoneId},
             lastDebugMessage := Triggered oneshot9ZoneId 0\<rparr>,
         [makeZone ninthOneshot], Returned)"
    using scenario_call [of "[finaleOneshot, ninthOneshot]" ?b ?f atOrigin]
    by (simp add: mixerWith_fields finale_then_ninth)
  let ?b1 = "fst (updateLocationAudio ?f ?b (Some atOrigin))"
  have a1: "oneshot9ZoneId \<notin> playedOneshots (fst (updateLocationAudio ?f ?a (Some atOrigin)))"
    by (simp add: ca mixerWith_fields)
  have a0: "finaleZoneId \<notin> playedOneshots ?a" by (simp add: mixerWith_fields)
  have b1: "isInitialized ?b1" "makeZone finaleOneshot \<in> set (audioZones ?b1)"
    "isOneshot (makeZone finaleOneshot)" "zoneId (makeZone finaleOneshot) = finaleZoneId"
    "zoneDistance atOrigin (makeZone finaleOneshot) \<le> triggerRadius (makeZone finaleOneshot)"
    "oneshot9ZoneId \<in> playedOneshots ?b1" "finaleZoneId \<notin> playedOneshots ?b1"
    by (simp_all add: cb mixerWith_fields scenario_zones scenario_ids)
  note T1 = finale_waits_for_prerequisite
    [where s = ?a and f = ?f and pos = "Some atOrigin", THEN conjunct1]
  note T2 = finale_waits_for_prerequisite
    [where s = ?a and z = "makeZone finaleOneshot" and p = atOrigin and acc = "[]",
     THEN conjunct2, THEN conjunct1]
  note T3 = finale_waits_for_prerequisite
    [where s = ?b1 and f = ?f and z = "makeZone finaleOneshot" and p = atOrigin,
     THEN conjunct2, THEN conjunct2, THEN conjunct1]
  have a2: "zoneId (makeZone finaleOneshot) = finaleZoneId"
    "oneshot9ZoneId \<notin> playedOneshots ?a" "playedOneshots ?a = {}"
    by (simp_all add: scenario_ids mixerWith_fields)
  from T2 a2 have r2: "playedOneshots (fst (oneshotZone atOrigin (makeZone finaleOneshot)
       (?a, []))) = {}"
    "snd (oneshotZone atOrigin (makeZone finaleOneshot) (?a, [])) = []" by simp_all
  from T1 a1 a0 have r1: "finaleZoneId \<notin> playedOneshots
       (fst (updateLocationAudio ?f ?a (Some atOrigin)))" by blast
  from T3 b1 have r3: "finaleZoneId \<in> playedOneshots
       (fst (updateLocationAudio ?f ?b1 (Some atOrigin)))" by blast
  show ?thesis using a1 b1(5,6,7) r1 r2 r3 by simp
qed

text \<open>
  Claim C9, as the code has it. Once the finale has played, no oneshot is triggered for
  the rest of the session: every later call of \<open>updateLocationAudio\<close> triggers no zone
  and leaves \<open>playedOneshots\<close> as it is, also for a position inside the trigger radius
  of a zone that has not played. (An ordinary oneshot that has fired does not stop the
  other ordinary oneshots.)
\<close>

theorem no_oneshot_after_finale:
  "finaleZoneId \<in> playedOneshots s \<longrightarrow>
     fst (snd (updateLocationAudio f s pos)) = [] \<and>
     playedOneshots (fst (updateLocationAudio f s pos)) = playedOneshots s \<and>
     snd (runSession f s ps) = [] \<and>
     playedOneshots (fst (runSession f s ps)) = playedOneshots s"
proof
  assume fin: "finaleZoneId \<in> playedOneshots s"
  obtain s' fired out where u: "updateLocationAudio f s pos = (s', fired, out)"
    by (cases "updateLocationAudio f s pos")
  obtain t F where r: "runSession f s ps = (t, F)"
    by (cases "runSession f s ps")
  from update_call(1,8) [OF u] fin have "fired = []" "playedOneshots s' = playedOneshots s"
    by simp_all
  moreover from session_run(1,7) [OF r] fin have "F = []" "playedOneshots t = playedOneshots s"
    by simp_all
  ultimately show "fst (snd (updateLocationAudio f s pos)) = [] \<and>
     playedOneshots (fst (updateLocationAudio f s pos)) = playedOneshots s \<and>
     snd (runSession f s ps) = [] \<and>
     playedOneshots (fst (runSession f s ps)) = playedOneshots s"
    using u r by simp
qed

lemma ninth_finale_first:
  "handleOneshots atOrigin (mixerWith [ninthOneshot, finaleOneshot, firstOneshot])
     = ((mixerWith [ninthOneshot, finaleOneshot, firstOneshot])
          \<lparr>playedOneshots := {finaleZoneId, oneshot9ZoneId},
           lastDebugMessage := Triggered finaleZoneId 0\<rparr>,
        [makeZone ninthOneshot, makeZone finaleOneshot])"
  by (simp add: handleOneshots_def mixerWith_fields oneshotZone_eq oneshotFires_def
        scenario_zones scenario_ids scenario_ids_sym)

theorem no_oneshot_after_finale_witness:
  "finaleZoneId \<in> playedOneshots
       (fst (updateLocationAudio (\<lambda>u. True)
          (mixerWith [ninthOneshot, finaleOneshot, firstOneshot]) (Some atOrigin)))
   \<and> zoneId (makeZone firstOneshot) \<notin> playedOneshots
       (fst (updateLocationAudio (\<lambda>u. True)
          (mixerWith [ninthOneshot, finaleOneshot, firstOneshot]) (Some atOrigin)))
   \<and> zoneDistance atOrigin (makeZone firstOneshot) \<le> triggerRadius (makeZone firstOneshot)
   \<and> snd (runSession (\<lambda>u. True)
       (fst (updateLocationAudio (\<lambda>u. True)
          (mixerWith [ninthOneshot, finaleOneshot, firstOneshot]) (Some atOrigin)))
       [Some atOrigin, Some atOrigin]) = []"
proof -
  let ?f = "\<lambda>u::string. True"
  let ?s = "mixerWith [ninthOneshot, finaleOneshot, firstOneshot]"
  have c: "updateLocationAudio ?f ?s (Some atOrigin)
      = (?s\<lparr>playedOneshots := {finaleZoneId, oneshot9ZoneId},
             lastDebugMessage := Triggered finaleZoneId 0\<rparr>,
         [makeZone ninthOneshot, makeZone finaleOneshot], Returned)"
    using scenario_call [of "[ninthOneshot, finaleOneshot, firstOneshot]" ?s ?f atOrigin]
    by (simp add: mixerWith_fields ninth_finale_first)
  have 1: "finaleZoneId \<in> playedOneshots (fst (updateLocationAudio ?f ?s (Some atOrigin)))"
    by (simp add: c)
  have 2: "zoneId (makeZone firstOneshot) \<notin>
             playedOneshots (fst (updateLocationAudio ?f ?s (Some atOrigin)))"
    by (simp add: c scenario_ids)
  have 3: "zoneDistance atOrigin (makeZone firstOneshot) \<le> triggerRadius (makeZone firstOneshot)"
    by (simp add: scenario_zones)
  from no_oneshot_after_finale
    [where s = "fst (updateLocationAudio ?f ?s (Some atOrigin))" and f = ?f
       and ps = "[Some atOrigin, Some atOrigin]"] 1
  have 4: "snd (runSession ?f (fst (updateLocationAudio ?f ?s (Some atOrigin)))
             [Some atOrigin, Some atOrigin]) = []" by blast
  show ?thesis using 1 2 3 4 by simp
qed

lemma first_at_origin:
  "handleOneshots atOrigin (mixerWith [firstOneshot, secondOneshot])
     = ((mixerWith [firstOneshot, secondOneshot])
          \<lparr>playedOneshots := {zoneId (makeZone firstOneshot)},
           lastDebugMessage := Triggered (zoneId (makeZone firstOneshot)) 0\<rparr>,
        [makeZone firstOneshot])"
  by (simp add: handleOneshots_def mixerWith_fields oneshotZone_eq oneshotFires_def
        scenario_zones scenario_ids scenario_ids_sym)

lemma second_up_north:
  "handleOneshots (northOf 1000)
     ((mixerWith [firstOneshot, secondOneshot])
          \<lparr>playedOneshots := {zoneId (makeZone firstOneshot)},
           lastDebugMessage := Triggered (zoneId (makeZone firstOneshot)) 0\<rparr>)
     = ((mixerWith [firstOneshot, secondOneshot])
          \<lparr>playedOneshots := {zoneId (makeZone secondOneshot), zoneId (makeZone firstOneshot)},
           lastDebugMessage := Triggered (zoneId (makeZone secondOneshot)) 0\<rparr>,
        [makeZone secondOneshot])"
  by (simp add: handleOneshots_def mixerWith_fields oneshotZone_eq oneshotFires_def
        scenario_zones scenario_ids scenario_ids_sym)

text \<open>
  Claim C9 fails as stated: with two ordinary oneshot zones 1000 metres apart, a call at
  the first zone fires it, and a later call at the second zone fires the second.
\<close>

theorem ordinary_oneshot_blocks_others_counterexample:
  "fst (snd (updateLocationAudio (\<lambda>u. True) (mixerWith [firstOneshot, secondOneshot])
       (Some atOrigin))) = [makeZone firstOneshot]
   \<and> fst (snd (updateLocationAudio (\<lambda>u. True)
       (fst (updateLocationAudio (\<lambda>u. True) (mixerWith [firstOneshot, secondOneshot])
          (Some atOrigin)))
       (Some (northOf 1000)))) = [makeZone secondOneshot]
   \<and> zoneId (makeZone firstOneshot) = ''oneshot_1''
   \<and> zoneId (makeZone secondOneshot) = ''oneshot_2''
   \<and> zoneId (makeZone firstOneshot) \<noteq> finaleZoneId
   \<and> zoneId (makeZone secondOneshot) \<noteq> finaleZoneId"
proof -
  let ?f = "\<lambda>u::string. True"
  let ?s = "mixerWith [firstOneshot, secondOneshot]"
  let ?s1 = "?s\<lparr>playedOneshots := {zoneId (makeZone firstOneshot)},
           lastDebugMessage := Triggered (zoneId (makeZone firstOneshot)) 0\<rparr>"
  have c1: "updateLocationAudio ?f ?s (Some atOrigin) = (?s1, [makeZone firstOneshot], Returned)"
    using scenario_call [of "[firstOneshot, secondOneshot]" ?s ?f atOrigin]
    by (simp add: mixerWith_fields first_at_origin)
  have c2: "fst (snd (updateLocationAudio ?f ?s1 (Some (northOf 1000)))) = [makeZone secondOneshot]"
    using scenario_call [of "[firstOneshot, secondOneshot]" ?s1 ?f "northOf 1000"]
    by (simp add: mixerWith_fields second_up_north)
  show ?thesis
    using c2 scenario_id_values scenario_ids(3,4) by (simp add: c1)
qed

section \<open>Part start protocol\<close>

lemma startLayer_skip:
  assumes "\<not> layerLoaded s l \<or> layerPlaying s l"
  shows "startLayer l s = s"
  using assms
  by (auto simp: startLayer_def layerLoaded_def layerPlaying_def split: option.splits)

lemma startLayer_fresh:
  assumes "layerLoaded s l" "\<not> layerPlaying s l"
  shows "startedFresh s (startLayer l s) l" and "nextNode (startLayer l s) = nextNode s + 2"
    and "layerPlaying (startLayer l s) l" and "layerSource (startLayer l s) l = Some (nextNode s)"
  using assms
  by (auto simp: startLayer_def layerLoaded_def layerPlaying_def layerSource_def
        startedFresh_def Let_def update_conv' split: option.splits)

lemma startLayer_nextNode: "nextNode s \<le> nextNode (startLayer l s)"
  by (simp add: startLayer_def Let_def split: option.splits)

lemma startLayer_below:
  assumes "k < nextNode s"
  shows "sourceNodes (startLayer l s) k = sourceNodes s k"
    and "gainNodes (startLayer l s) k = gainNodes s k"
  using assms by (simp_all add: startLayer_def Let_def split: option.splits)

lemma startLayer_other:
  assumes "l' \<noteq> l"
  shows "map_of (audioLayers (startLayer l s)) l' = map_of (audioLayers s) l'"
    and "layerGains (startLayer l s) l' = layerGains s l'"
  using assms by (simp_all add: startLayer_def Let_def update_conv' split: option.splits)

lemma layer_status_cong:
  assumes "map_of (audioLayers a) l = map_of (audioLayers b) l"
  shows "layerLoaded a l = layerLoaded b l" and "layerPlaying a l = layerPlaying b l"
    and "layerSource a l = layerSource b l"
  using assms by (simp_all add: layerLoaded_def layerPlaying_def layerSource_def)

lemma startedFresh_later:
  assumes "startedFresh s s1 l"
    and "map_of (audioLayers s') l = map_of (audioLayers s1) l"
    and "layerGains s' l = layerGains s1 l"
    and "\<And>k. k < nextNode s1 \<Longrightarrow> sourceNodes s' k = sourceNodes s1 k"
    and "\<And>k. k < nextNode s1 \<Longrightarrow> gainNodes s' k = gainNodes s1 k"
    and "nextNode s1 \<le> nextNode s'"
  shows "startedFresh s s' l"
  using assms
  by (auto simp: startedFresh_def split: option.splits)

lemma startedFresh_earlier:
  assumes "startedFresh s1 s' l"
    and "map_of (audioLayers s) l = map_of (audioLayers s1) l"
    and "nextNode s \<le> nextNode s1"
  shows "startedFresh s s' l"
  using assms
  by (auto simp: startedFresh_def split: option.splits)

lemma startedFresh_source:
  assumes "startedFresh s s' l"
  shows "\<exists>n. layerSource s' l = Some n \<and> nextNode s \<le> n" and "layerPlaying s' l"
  using assms
  by (auto simp: startedFresh_def layerSource_def layerPlaying_def split: option.splits)

lemma fold_startLayer_nextNode: "nextNode s \<le> nextNode (fold startLayer ls s)"
proof (induction ls arbitrary: s)
  case Nil
  show ?case by simp
next
  case (Cons x ls)
  have "nextNode s \<le> nextNode (startLayer x s)" by (rule startLayer_nextNode)
  also have "\<dots> \<le> nextNode (fold startLayer ls (startLayer x s))" by (rule Cons.IH)
  finally show ?case by simp
qed

lemma fold_startLayer_below:
  assumes "k < nextNode s"
  shows "sourceNodes (fold startLayer ls s) k = sourceNodes s k
       \<and> gainNodes (fold startLayer ls s) k = gainNodes s k"
  using assms
proof (induction ls arbitrary: s)
  case Nil
  show ?case by simp
next
  case (Cons x ls)
  have "k < nextNode (startLayer x s)"
    using Cons.prems startLayer_nextNode [of s x] by simp
  from Cons.IH [OF this] startLayer_below [OF Cons.prems, of x]
  show ?case by simp
qed

lemma fold_startLayer_unchanged:
  assumes "l \<notin> set ls \<or> \<not> layerLoaded s l \<or> layerPlaying s l"
  shows "map_of (audioLayers (fold startLayer ls s)) l = map_of (audioLayers s) l
       \<and> layerGains (fold startLayer ls s) l = layerGains s l"
  using assms
proof (induction ls arbitrary: s)
  case Nil
  show ?case by simp
next
  case (Cons x ls)
  show ?case
  proof (cases "l = x")
    case True
    with Cons.prems have skip: "\<not> layerLoaded s x \<or> layerPlaying s x" by simp
    then have "startLayer x s = s" by (rule startLayer_skip)
    moreover from skip True have "l \<notin> set ls \<or> \<not> layerLoaded s l \<or> layerPlaying s l"
      by simp
    ultimately show ?thesis using Cons.IH [of s] by simp
  next
    case False
    note o = startLayer_other [OF False, of s]
    have "l \<notin> set ls \<or> \<not> layerLoaded (startLayer x s) l \<or> layerPlaying (startLayer x s) l"
      using Cons.prems False layer_status_cong(1,2) [OF o(1)] by auto
    from Cons.IH [OF this] o show ?thesis by simp
  qed
qed

lemma fold_startLayer_startedParts:
  "startedParts (fold startLayer ls s) = startedParts s"
proof (induction ls arbitrary: s)
  case Nil
  show ?case by simp
next
  case (Cons x ls)
  have "startedParts (startLayer x s) = startedParts s"
    by (simp add: startLayer_def Let_def split: option.splits)
  with Cons.IH [of "startLayer x s"] show ?case by simp
qed

lemma fold_startLayer_fresh:
  assumes "l \<in> set ls" "layerLoaded s l" "\<not> layerPlaying s l"
  shows "startedFresh s (fold startLayer ls s) l"
  using assms
proof (induction ls arbitrary: s)
  case Nil
  then show ?case by simp
next
  case (Cons x ls)
  let ?s1 = "startLayer x s"
  let ?s' = "fold startLayer ls ?s1"
  show ?case
  proof (cases "l = x")
    case True
    with Cons.prems have f: "startedFresh s ?s1 l" "layerPlaying ?s1 l"
      using startLayer_fresh(1,3) [of s l] by simp_all
    from fold_startLayer_unchanged [of l ls ?s1] f(2)
    have u: "map_of (audioLayers ?s') l = map_of (audioLayers ?s1) l"
      "layerGains ?s' l = layerGains ?s1 l" by simp_all
    have "startedFresh s ?s' l"
      using f(1) u
    proof (rule startedFresh_later)
      show "sourceNodes ?s' k = sourceNodes ?s1 k" if "k < nextNode ?s1" for k
        using fold_startLayer_below [OF that, of ls] by simp
      show "gainNodes ?s' k = gainNodes ?s1 k" if "k < nextNode ?s1" for k
        using fold_startLayer_below [OF that, of ls] by simp
      show "nextNode ?s1 \<le> nextNode ?s'" by (rule fold_startLayer_nextNode)
    qed
    then show ?thesis by simp
  next
    case False
    note o = startLayer_other [OF False, of s]
    from Cons.prems False have "l \<in> set ls" by simp
    moreover have "layerLoaded ?s1 l" "\<not> layerPlaying ?s1 l"
      using Cons.prems(2,3) layer_status_cong(1,2) [OF o(1)] by simp_all
    ultimately have "startedFresh ?s1 ?s' l" by (rule Cons.IH)
    then have "startedFresh s ?s' l"
      using o(1) [symmetric] startLayer_nextNode by (rule startedFresh_earlier)
    then show ?thesis by simp
  qed
qed

lemma fold_startLayer_sources_differ:
  assumes "l1 \<in> set ls" "layerLoaded s l1" "\<not> layerPlaying s l1"
    and "l2 \<in> set ls" "layerLoaded s l2" "\<not> layerPlaying s l2" and "l1 \<noteq> l2"
  shows "layerSource (fold startLayer ls s) l1 \<noteq> layerSource (fold startLayer ls s) l2"
  using assms
proof (induction ls arbitrary: s)
  case Nil
  then show ?case by simp
next
  case (Cons x ls)
  let ?s1 = "startLayer x s"
  let ?s' = "fold startLayer ls ?s1"
  have first: "layerSource ?s' a \<noteq> layerSource ?s' b"
    if a: "a = x" "layerLoaded s a" "\<not> layerPlaying s a"
      and b: "b \<in> set (x # ls)" "layerLoaded s b" "\<not> layerPlaying s b" "a \<noteq> b" for a b
  proof -
    have sa: "layerSource ?s1 a = Some (nextNode s)" "layerPlaying ?s1 a"
      "nextNode ?s1 = nextNode s + 2"
      using startLayer_fresh(2,3,4) [OF a(2,3)] a(1) by simp_all
    from fold_startLayer_unchanged [of a ls ?s1] sa(2)
    have "map_of (audioLayers ?s') a = map_of (audioLayers ?s1) a" by simp
    then have "layerSource ?s' a = layerSource ?s1 a" by (rule layer_status_cong(3))
    with sa(1) have srca: "layerSource ?s' a = Some (nextNode s)" by simp
    have bx: "b \<noteq> x" "b \<in> set ls" using a(1) b(1,4) by auto
    note o = startLayer_other [OF bx(1), of s]
    have "layerLoaded ?s1 b" "\<not> layerPlaying ?s1 b"
      using b(2,3) layer_status_cong(1,2) [OF o(1)] by simp_all
    with bx(2) have "startedFresh ?s1 ?s' b" by (rule fold_startLayer_fresh)
    from startedFresh_source(1) [OF this] obtain n where
      "layerSource ?s' b = Some n" "nextNode ?s1 \<le> n" by blast
    with srca sa(3) show ?thesis by simp
  qed
  show ?case
  proof (cases "l1 = x")
    case True
    from first [OF True Cons.prems(2,3) Cons.prems(4,5,6,7)] show ?thesis by simp
  next
    case n1: False
    show ?thesis
    proof (cases "l2 = x")
      case True
      from first [OF True Cons.prems(5,6) Cons.prems(1,2,3)] Cons.prems(7)
      show ?thesis by simp
    next
      case n2: False
      note o1 = startLayer_other [OF n1, of s]
      note o2 = startLayer_other [OF n2, of s]
      have "l1 \<in> set ls" "l2 \<in> set ls" using Cons.prems(1,4) n1 n2 by simp_all
      moreover have "layerLoaded ?s1 l1" "\<not> layerPlaying ?s1 l1"
        using Cons.prems(2,3) layer_status_cong(1,2) [OF o1(1)] by simp_all
      moreover have "layerLoaded ?s1 l2" "\<not> layerPlaying ?s1 l2"
        using Cons.prems(5,6) layer_status_cong(1,2) [OF o2(1)] by simp_all
      ultimately have "layerSource ?s' l1 \<noteq> layerSource ?s' l2"
        using Cons.prems(7) by (intro Cons.IH)
      then show ?thesis by simp
    qed
  qed
qed

lemma observers_ignore_part_marks:
  "layerPlaying (t\<lparr>startedParts := A, lastDebugMessage := m\<rparr>) l = layerPlaying t l"
  "layerSource (t\<lparr>startedParts := A, lastDebugMessage := m\<rparr>) l = layerSource t l"
  "layerLoaded (t\<lparr>lastDebugMessage := m\<rparr>) l = layerLoaded t l"
  "startedFresh s (t\<lparr>startedParts := A, lastDebugMessage := m\<rparr>) l = startedFresh s t l"
  by (simp_all add: layerPlaying_def layerSource_def layerLoaded_def startedFresh_def
        split: option.splits)

lemma startPart_noop:
  assumes "partId = [] \<or> partId \<in> startedParts s \<or> partToLayers s partId = None
           \<or> partToLayers s partId = Some []"
  shows "startPart s partId = s"
  using assms by (auto simp: startPart_def)

lemma startPart_waiting:
  assumes "partId \<noteq> []" "partId \<notin> startedParts s" "partToLayers s partId = Some ls"
    "ls \<noteq> []" "\<exists>l \<in> set ls. \<not> layerLoaded s l"
  shows "startPart s partId =
           s\<lparr>lastDebugMessage := PartWaiting partId (filter (\<lambda>l. \<not> layerLoaded s l) ls)\<rparr>"
proof -
  have "filter (\<lambda>l. \<not> layerLoaded s l) ls \<noteq> []"
    using assms(5) by (simp add: filter_empty_conv)
  then show ?thesis using assms(1-4) by (simp add: startPart_def Let_def)
qed

lemma startPart_starts:
  assumes "partId \<noteq> []" "partId \<notin> startedParts s" "partToLayers s partId = Some ls"
    "ls \<noteq> []" "\<forall>l \<in> set ls. layerLoaded s l"
  shows "startPart s partId =
           (fold startLayer ls s)\<lparr>startedParts := insert partId (startedParts s),
              lastDebugMessage := PartStarted partId (length ls)\<rparr>"
proof -
  have "filter (\<lambda>l. \<not> layerLoaded s l) ls = []"
    using assms(5) by (simp add: filter_empty_conv)
  then show ?thesis
    using assms(1-4) by (simp add: startPart_def Let_def fold_startLayer_startedParts)
qed

lemma startPart_idempotent: "startPart (startPart s partId) partId = startPart s partId"
proof (cases "partId = [] \<or> partId \<in> startedParts s \<or> partToLayers s partId = None
           \<or> partToLayers s partId = Some []")
  case True
  then show ?thesis by (simp add: startPart_noop)
next
  case False
  then obtain ls where h: "partId \<noteq> []" "partId \<notin> startedParts s"
    "partToLayers s partId = Some ls" "ls \<noteq> []" by auto
  show ?thesis
  proof (cases "\<forall>l \<in> set ls. layerLoaded s l")
    case True
    have "partId \<in> startedParts (startPart s partId)"
      by (simp add: startPart_starts [OF h True])
    then show ?thesis by (simp add: startPart_noop)
  next
    case False
    then have w: "\<exists>l \<in> set ls. \<not> layerLoaded s l" by simp
    let ?m = "PartWaiting partId (filter (\<lambda>l. \<not> layerLoaded s l) ls)"
    have 1: "startPart s partId = s\<lparr>lastDebugMessage := ?m\<rparr>"
      by (rule startPart_waiting [OF h w])
    have "startPart (s\<lparr>lastDebugMessage := ?m\<rparr>) partId
        = s\<lparr>lastDebugMessage := ?m\<rparr>\<lparr>lastDebugMessage :=
            PartWaiting partId
              (filter (\<lambda>l. \<not> layerLoaded (s\<lparr>lastDebugMessage := ?m\<rparr>) l) ls)\<rparr>"
      using h w by (intro startPart_waiting) (simp_all add: observers_ignore_part_marks)
    then show ?thesis by (simp add: 1 observers_ignore_part_marks)
  qed
qed

text \<open>
  Claim C4, as the code has it. \<open>startPart\<close> changes nothing when the part id is empty,
  the part is already started or it has no registered member. When a member has no
  loaded buffer it only sets \<open>lastDebugMessage\<close> to the waiting report: no source is
  created and \<open>startedParts\<close> is unchanged. Otherwise the part is marked started, every
  member is marked playing, and every member that was not already playing gets a source
  and a gain node of its own that did not exist before: a looping source and a gain at 0
  on the music bus, different members getting different sources. A member that was
  already playing keeps the source and gain it had. Calling \<open>startPart\<close> a second time
  with the same part id changes nothing.
\<close>

theorem startPart_protocol:
  "(partId = [] \<or> partId \<in> startedParts s \<or> partToLayers s partId = None
      \<or> partToLayers s partId = Some [] \<longrightarrow> startPart s partId = s)
   \<and> (partId \<noteq> [] \<and> partId \<notin> startedParts s \<and> partToLayers s partId = Some ls \<and> ls \<noteq> [] \<and>
       (\<exists>l \<in> set ls. \<not> layerLoaded s l) \<longrightarrow>
        startPart s partId =
          s\<lparr>lastDebugMessage := PartWaiting partId (filter (\<lambda>l. \<not> layerLoaded s l) ls)\<rparr>)
   \<and> (partId \<noteq> [] \<and> partId \<notin> startedParts s \<and> partToLayers s partId = Some ls \<and> ls \<noteq> [] \<and>
       (\<forall>l \<in> set ls. layerLoaded s l) \<longrightarrow>
        startedParts (startPart s partId) = insert partId (startedParts s) \<and>
        lastDebugMessage (startPart s partId) = PartStarted partId (length ls) \<and>
        (\<forall>l \<in> set ls. layerPlaying (startPart s partId) l) \<and>
        (\<forall>l \<in> set ls. \<not> layerPlaying s l \<longrightarrow> startedFresh s (startPart s partId) l) \<and>
        (\<forall>l \<in> set ls. layerPlaying s l \<longrightarrow>
           map_of (audioLayers (startPart s partId)) l = map_of (audioLayers s) l \<and>
           layerGains (startPart s partId) l = layerGains s l) \<and>
        (\<forall>l1 \<in> set ls. \<forall>l2 \<in> set ls.
           l1 \<noteq> l2 \<and> \<not> layerPlaying s l1 \<and> \<not> layerPlaying s l2 \<longrightarrow>
           layerSource (startPart s partId) l1 \<noteq> layerSource (startPart s partId) l2))
   \<and> startPart (startPart s partId) partId = startPart s partId"
proof -
  have 1: "partId = [] \<or> partId \<in> startedParts s \<or> partToLayers s partId = None
      \<or> partToLayers s partId = Some [] \<longrightarrow> startPart s partId = s"
    using startPart_noop by blast
  have 2: "partId \<noteq> [] \<and> partId \<notin> startedParts s \<and> partToLayers s partId = Some ls \<and>
       ls \<noteq> [] \<and> (\<exists>l \<in> set ls. \<not> layerLoaded s l) \<longrightarrow>
        startPart s partId =
          s\<lparr>lastDebugMessage := PartWaiting partId (filter (\<lambda>l. \<not> layerLoaded s l) ls)\<rparr>"
    using startPart_waiting by blast
  have 3: "startedParts (startPart s partId) = insert partId (startedParts s) \<and>
        lastDebugMessage (startPart s partId) = PartStarted partId (length ls) \<and>
        (\<forall>l \<in> set ls. layerPlaying (startPart s partId) l) \<and>
        (\<forall>l \<in> set ls. \<not> layerPlaying s l \<longrightarrow> startedFresh s (startPart s partId) l) \<and>
        (\<forall>l \<in> set ls. layerPlaying s l \<longrightarrow>
           map_of (audioLayers (startPart s partId)) l = map_of (audioLayers s) l \<and>
           layerGains (startPart s partId) l = layerGains s l) \<and>
        (\<forall>l1 \<in> set ls. \<forall>l2 \<in> set ls.
           l1 \<noteq> l2 \<and> \<not> layerPlaying s l1 \<and> \<not> layerPlaying s l2 \<longrightarrow>
           layerSource (startPart s partId) l1 \<noteq> layerSource (startPart s partId) l2)"
    if h: "partId \<noteq> []" "partId \<notin> startedParts s" "partToLayers s partId = Some ls"
      "ls \<noteq> []" "\<forall>l \<in> set ls. layerLoaded s l"
  proof -
    let ?t = "fold startLayer ls s"
    note eq = startPart_starts [OF h]
    have a: "startedParts (startPart s partId) = insert partId (startedParts s)"
      "lastDebugMessage (startPart s partId) = PartStarted partId (length ls)"
      by (simp_all add: eq)
    have fresh: "startedFresh s ?t l" if "l \<in> set ls" "\<not> layerPlaying s l" for l
      using that h(5) by (intro fold_startLayer_fresh) simp_all
    have kept: "map_of (audioLayers ?t) l = map_of (audioLayers s) l \<and>
                layerGains ?t l = layerGains s l" if "layerPlaying s l" for l
      using that by (intro fold_startLayer_unchanged) simp
    have playing: "layerPlaying ?t l" if "l \<in> set ls" for l
    proof (cases "layerPlaying s l")
      case True
      with kept [OF True] layer_status_cong(2) [of ?t l s] show ?thesis by simp
    next
      case False
      from startedFresh_source(2) [OF fresh [OF that False]] show ?thesis .
    qed
    have differ: "layerSource ?t l1 \<noteq> layerSource ?t l2"
      if "l1 \<in> set ls" "l2 \<in> set ls" "l1 \<noteq> l2" "\<not> layerPlaying s l1" "\<not> layerPlaying s l2"
      for l1 l2
      using that h(5) by (intro fold_startLayer_sources_differ) simp_all
    show ?thesis
      using a fresh kept playing differ
      by (simp add: eq observers_ignore_part_marks)
  qed
  show ?thesis
    using 1 2 3 startPart_idempotent [of s partId] by blast
qed

lemma partRegistered_fields:
  "partToLayers partRegistered ''P'' = Some [''A'', ''B'']"
  "startedParts partRegistered = {}" "nextNode partRegistered = 0"
  "map_of (audioLayers partRegistered) ''A'' =
     Some \<lparr> buffer = None, source = None, gainNode = None, isPlaying = False, loop = True,
            volume = 1, url = Some ''a.mp3'' \<rparr>"
  "map_of (audioLayers partRegistered) ''B'' =
     Some \<lparr> buffer = None, source = None, gainNode = None, isPlaying = False, loop = True,
            volume = 1, url = Some ''b.mp3'' \<rparr>"
  "masterVolume partRegistered = 7 / 10" "isInitialized partRegistered"
  by (simp_all add: partRegistered_def registerLayerPart_def registerLayerDefaults_def
        initialize_def newMixer_def setAdd_def truthy_def update_conv')

lemma partHalfLoaded_fields:
  "partToLayers partHalfLoaded ''P'' = Some [''A'', ''B'']"
  "startedParts partHalfLoaded = {}" "nextNode partHalfLoaded = 0"
  "layerLoaded partHalfLoaded ''A''" "\<not> layerLoaded partHalfLoaded ''B''"
  by (simp_all add: partHalfLoaded_def loadAudio_def Let_def partRegistered_fields
        layerLoaded_def update_conv' truthy_def)

lemma partLoaded_fields:
  "partToLayers partLoaded ''P'' = Some [''A'', ''B'']"
  "startedParts partLoaded = {}" "nextNode partLoaded = 0"
  "layerLoaded partLoaded ''A''" "layerLoaded partLoaded ''B''"
  "\<not> layerPlaying partLoaded ''A''" "\<not> layerPlaying partLoaded ''B''"
  "masterVolume partLoaded = 7 / 10"
  "map_of (audioLayers partLoaded) ''A'' =
     Some \<lparr> buffer = Some ''a.mp3'', source = None, gainNode = None, isPlaying = False,
            loop = True, volume = 1, url = Some ''a.mp3'' \<rparr>"
  by (simp_all add: partLoaded_def partHalfLoaded_def loadAudio_def Let_def
        partRegistered_fields layerLoaded_def layerPlaying_def update_conv' truthy_def)

lemma partMemberPlaying_fields:
  "partToLayers partMemberPlaying ''P'' = Some [''A'', ''B'']"
  "startedParts partMemberPlaying = {}" "nextNode partMemberPlaying = 2"
  "layerLoaded partMemberPlaying ''A''" "layerLoaded partMemberPlaying ''B''"
  "layerPlaying partMemberPlaying ''A''" "\<not> layerPlaying partMemberPlaying ''B''"
  "layerSource partMemberPlaying ''A'' = Some 0"
  "gainNodes partMemberPlaying 1 =
     Some \<lparr> gainInitial = 0, gainRamps = [(7 / 20, 1 / 20)], gainOutput = MusicBus \<rparr>"
proof -
  have eq: "partMemberPlaying =
     partLoaded\<lparr>sourceNodes := (sourceNodes partLoaded)(0 \<mapsto>
                  \<lparr> srcBuffer = ''a.mp3'', srcLoop = True, srcOutput = Suc 0,
                    srcStopped = False \<rparr>),
                gainNodes := (gainNodes partLoaded)(Suc 0 \<mapsto>
                  \<lparr> gainInitial = 0, gainRamps = [(7 / 20, 1 / 20)],
                    gainOutput = MusicBus \<rparr>),
                nextNode := 2,
                audioLayers := AList.update ''A''
                  \<lparr> buffer = Some ''a.mp3'', source = Some 0, gainNode = Some (Suc 0),
                    isPlaying = True, loop = True, volume = 1, url = Some ''a.mp3'' \<rparr>
                  (audioLayers partLoaded)\<rparr>"
    by (simp add: partMemberPlaying_def playLayer_def Let_def partLoaded_fields)
  have b: "map_of (audioLayers partLoaded) ''B'' = map_of (audioLayers partMemberPlaying) ''B''"
    by (simp add: eq update_conv')
  show "partToLayers partMemberPlaying ''P'' = Some [''A'', ''B'']"
    "startedParts partMemberPlaying = {}" "nextNode partMemberPlaying = 2"
    by (simp_all add: eq partLoaded_fields)
  show "layerLoaded partMemberPlaying ''A''" "layerPlaying partMemberPlaying ''A''"
    "layerSource partMemberPlaying ''A'' = Some 0"
    by (simp_all add: eq layerLoaded_def layerPlaying_def layerSource_def update_conv')
  show "layerLoaded partMemberPlaying ''B''" "\<not> layerPlaying partMemberPlaying ''B''"
    using layer_status_cong(1,2) [OF b] partLoaded_fields(5,7) by simp_all
  show "gainNodes partMemberPlaying 1 =
     Some \<lparr> gainInitial = 0, gainRamps = [(7 / 20, 1 / 20)], gainOutput = MusicBus \<rparr>"
    by (simp add: eq)
qed

theorem startPart_protocol_witness:
  "startPart partLoaded [] = partLoaded
   \<and> partToLayers partLoaded ''P'' = Some [''A'', ''B'']
   \<and> startedParts (startPart partLoaded ''P'') = {''P''}
   \<and> startedFresh partLoaded (startPart partLoaded ''P'') ''A''
   \<and> startedFresh partLoaded (startPart partLoaded ''P'') ''B''
   \<and> layerSource (startPart partLoaded ''P'') ''A'' \<noteq> layerSource (startPart partLoaded ''P'') ''B''
   \<and> startPart (startPart partLoaded ''P'') ''P'' = startPart partLoaded ''P''
   \<and> startPart partHalfLoaded ''P''
       = partHalfLoaded\<lparr>lastDebugMessage := PartWaiting ''P'' [''B'']\<rparr>"
proof -
  note T = startPart_protocol [where s = partLoaded and partId = "''P''" and ls = "[''A'', ''B'']"]
  note T1 = startPart_protocol [where s = partLoaded and partId = "[]", THEN conjunct1]
  note T3 = T [THEN conjunct2, THEN conjunct2, THEN conjunct1]
  note T4 = T [THEN conjunct2, THEN conjunct2, THEN conjunct2]
  from T1 have s1: "startPart partLoaded [] = partLoaded" by simp
  note W = startPart_protocol [where s = partHalfLoaded and partId = "''P''"
      and ls = "[''A'', ''B'']", THEN conjunct2, THEN conjunct1]
  have h: "''P'' \<noteq> []" "''P'' \<notin> startedParts partLoaded"
    "partToLayers partLoaded ''P'' = Some [''A'', ''B'']" "[''A'', ''B''] \<noteq> []"
    "\<forall>l \<in> set [''A'', ''B'']. layerLoaded partLoaded l"
    by (simp_all add: partLoaded_fields)
  have w: "''P'' \<notin> startedParts partHalfLoaded"
    "partToLayers partHalfLoaded ''P'' = Some [''A'', ''B'']"
    "\<exists>l \<in> set [''A'', ''B'']. \<not> layerLoaded partHalfLoaded l"
    "filter (\<lambda>l. \<not> layerLoaded partHalfLoaded l) [''A'', ''B''] = [''B'']"
    by (simp_all add: partHalfLoaded_fields)
  from T3 h have s3: "startedParts (startPart partLoaded ''P'') = insert ''P'' (startedParts partLoaded)"
    "\<forall>l \<in> set [''A'', ''B'']. \<not> layerPlaying partLoaded l \<longrightarrow>
        startedFresh partLoaded (startPart partLoaded ''P'') l"
    "\<forall>l1 \<in> set [''A'', ''B'']. \<forall>l2 \<in> set [''A'', ''B''].
           l1 \<noteq> l2 \<and> \<not> layerPlaying partLoaded l1 \<and> \<not> layerPlaying partLoaded l2 \<longrightarrow>
           layerSource (startPart partLoaded ''P'') l1 \<noteq> layerSource (startPart partLoaded ''P'') l2"
    by blast+
  from W w(1,2,3) h(1,4) have s2: "startPart partHalfLoaded ''P'' =
      partHalfLoaded\<lparr>lastDebugMessage :=
        PartWaiting ''P'' (filter (\<lambda>l. \<not> layerLoaded partHalfLoaded l) [''A'', ''B''])\<rparr>"
    by blast
  show ?thesis
    using s1 s3 T4 s2 by (simp add: partLoaded_fields partHalfLoaded_fields)
qed

text \<open>
  Claim C4 fails as stated: with member \<open>A\<close> of part \<open>P\<close> already playing through
  \<open>playLayer\<close>, \<open>startPart\<close> starts the part but leaves \<open>A\<close> on the source it had, whose
  gain node carries the fade-in scheduled by \<open>playLayer\<close>.
\<close>

theorem startPart_every_member_fresh_counterexample:
  "''P'' \<notin> startedParts partMemberPlaying
   \<and> partToLayers partMemberPlaying ''P'' = Some [''A'', ''B'']
   \<and> layerLoaded partMemberPlaying ''A'' \<and> layerLoaded partMemberPlaying ''B''
   \<and> ''P'' \<in> startedParts (startPart partMemberPlaying ''P'')
   \<and> \<not> startedFresh partMemberPlaying (startPart partMemberPlaying ''P'') ''A''
   \<and> layerSource (startPart partMemberPlaying ''P'') ''A'' = Some 0
   \<and> nextNode partMemberPlaying = 2
   \<and> gainNodes (startPart partMemberPlaying ''P'') 1 =
       Some \<lparr> gainInitial = 0, gainRamps = [(7 / 20, 1 / 20)], gainOutput = MusicBus \<rparr>"
proof -
  let ?s = partMemberPlaying
  let ?t = "fold startLayer [''A'', ''B''] ?s"
  have eq: "startPart ?s ''P'' =
      ?t\<lparr>startedParts := insert ''P'' (startedParts ?s),
          lastDebugMessage := PartStarted ''P'' (length [''A'', ''B''])\<rparr>"
    by (intro startPart_starts) (simp_all add: partMemberPlaying_fields)
  have kept: "map_of (audioLayers ?t) ''A'' = map_of (audioLayers ?s) ''A''"
    using fold_startLayer_unchanged [of "''A''" "[''A'', ''B'']" ?s]
    by (simp add: partMemberPlaying_fields)
  then have src: "layerSource ?t ''A'' = Some 0"
    using layer_status_cong(3) [OF kept] by (simp add: partMemberPlaying_fields)
  have nf: "\<not> startedFresh ?s ?t ''A''"
    using src by (auto simp: startedFresh_def layerSource_def partMemberPlaying_fields
        split: option.splits)
  have g: "gainNodes ?t 1 = gainNodes ?s 1"
    using fold_startLayer_below [of 1 ?s "[''A'', ''B'']"]
    by (simp add: partMemberPlaying_fields)
  show ?thesis
    using src nf g partMemberPlaying_fields(9)
    by (simp add: eq observers_ignore_part_marks partMemberPlaying_fields(1-8))
qed

section \<open>A failed load in step 3\<close>

lemma failedLoadMixer_fields:
  "isInitialized failedLoadMixer" "audioZones failedLoadMixer = [makeZone musicZoneConfig]"
  "playedOneshots failedLoadMixer = {}" "startedParts failedLoadMixer = {}"
  "activeOneshots failedLoadMixer = {}" "nextNode failedLoadMixer = 0"
  "layerToPart failedLoadMixer = [''A'' \<mapsto> ''P'', ''B'' \<mapsto> ''P'']"
  "partToLayers failedLoadMixer = [''P'' \<mapsto> [''A'', ''B'']]"
  "masterVolume failedLoadMixer = 7 / 10" "layerGains failedLoadMixer = Map.empty"
  "audioLayers failedLoadMixer =
     [(''A'', \<lparr> buffer = None, source = None, gainNode = None, isPlaying = False,
               loop = True, volume = 1, url = Some ''a.mp3'' \<rparr>),
      (''B'', \<lparr> buffer = None, source = None, gainNode = None, isPlaying = False,
               loop = True, volume = 1, url = Some ''b.mp3'' \<rparr>),
      (''C'', \<lparr> buffer = Some ''c.mp3'', source = None, gainNode = None, isPlaying = False,
               loop = True, volume = 1, url = Some ''c.mp3'' \<rparr>)]"
  by (simp_all add: failedLoadMixer_def addAudioZone_def loadAudio_def Let_def
        registerLayerDefaults_def partRegistered_def registerLayerPart_def initialize_def
        newMixer_def setAdd_def truthy_def fun_upd_twist)

lemma musicZone_fields:
  "\<not> isOneshot (makeZone musicZoneConfig)" "zoneLayers (makeZone musicZoneConfig) = [''A'', ''C'']"
  "zoneId (makeZone musicZoneConfig) = ''music1''"
  "zoneDistance atOrigin (makeZone musicZoneConfig) = 0"
  "specContribution (makeZone musicZoneConfig) 0 = 1" "radius (makeZone musicZoneConfig) = 100"
proof -
  show a: "\<not> isOneshot (makeZone musicZoneConfig)"
    "zoneLayers (makeZone musicZoneConfig) = [''A'', ''C'']"
    "zoneId (makeZone musicZoneConfig) = ''music1''" "radius (makeZone musicZoneConfig) = 100"
    by (simp_all add: makeZone_def musicZoneConfig_def falsyOrBool_def)
  show "zoneDistance atOrigin (makeZone musicZoneConfig) = 0"
    by (intro zoneDistance_scenarios(1)) (simp add: makeZone_def musicZoneConfig_def)
  show "specContribution (makeZone musicZoneConfig) 0 = 1"
    by (simp add: specContribution_def makeZone_def musicZoneConfig_def falsyOr_def)
qed

lemma failedLoad_targets:
  "computeTargets atOrigin [makeZone musicZoneConfig] ([], msg)
     = Some ([(''A'', 1), (''C'', 1)], ZoneVolume ''music1'' 0 1)"
  by (simp add: musicZone_fields zoneVolume_spec getOrZero_map_of)

lemma failedLoad_oneshots: "handleOneshots atOrigin failedLoadMixer = (failedLoadMixer, [])"
  by (simp add: handleOneshots_def failedLoadMixer_fields oneshotZone_eq oneshotFires_def
        musicZone_fields)

lemma updateLocationAudio_steps:
  assumes "isInitialized s" and "handleOneshots p s = (s1, fired)"
    and "computeTargets p (audioZones s1) ([], lastDebugMessage s1) = Some (m, msg)"
    and "partsToStart (s1\<lparr>lastDebugMessage := msg\<rparr>) m (map fst m) [] = queued"
    and "startQueuedParts f (s1\<lparr>lastDebugMessage := msg\<rparr>) queued = (r, s3)"
  shows "updateLocationAudio f s (Some p) =
           (case r of Some failed \<Rightarrow> (s3, fired, Rejected failed)
                    | None \<Rightarrow> (applyFades m s3, fired, Returned))"
  using assms(1)
  by (simp add: updateLocationAudio_def isReady_def assms(2-5) Let_def split: option.splits)

lemma failedLoad_queue:
  assumes "layerToPart s = layerToPart failedLoadMixer" "startedParts s = {}"
  shows "partsToStart s [(''A'', 1), (''C'', 1)] [''A'', ''C''] [] = [''P'']"
  using assms by (simp add: failedLoadMixer_fields setAdd_def)

lemma failedLoad_rejected:
  "updateLocationAudio assetOfBMissing failedLoadMixer (Some atOrigin)
     = (loadAudio (failedLoadMixer\<lparr>lastDebugMessage := ZoneVolume ''music1'' 0 1\<rparr>)
          ''a.mp3'' ''A'',
        [], Rejected ''B'')"
proof -
  let ?s2 = "failedLoadMixer\<lparr>lastDebugMessage := ZoneVolume ''music1'' 0 1\<rparr>"
  have t: "computeTargets atOrigin (audioZones failedLoadMixer)
             ([], lastDebugMessage failedLoadMixer)
           = Some ([(''A'', 1), (''C'', 1)], ZoneVolume ''music1'' 0 1)"
    unfolding failedLoadMixer_fields(2) by (rule failedLoad_targets)
  have q: "partsToStart ?s2 [(''A'', 1), (''C'', 1)] (map fst [(''A'', 1 :: real), (''C'', 1)]) []
             = [''P'']"
    using failedLoad_queue [of ?s2] by (simp add: failedLoadMixer_fields)
  have a: "ensureLayerLoaded assetOfBMissing ?s2 ''A'' = (True, loadAudio ?s2 ''a.mp3'' ''A'')"
    by (simp add: ensureLayerLoaded_def failedLoadMixer_fields assetOfBMissing_def)
  have b: "ensureLayerLoaded assetOfBMissing (loadAudio ?s2 ''a.mp3'' ''A'') ''B''
             = (False, loadAudio ?s2 ''a.mp3'' ''A'')"
    by (simp add: ensureLayerLoaded_def loadAudio_def Let_def failedLoadMixer_fields
          assetOfBMissing_def)
  have l: "startQueuedParts assetOfBMissing ?s2 [''P'']
             = (Some ''B'', loadAudio ?s2 ''a.mp3'' ''A'')"
    by (simp add: failedLoadMixer_fields a b)
  from updateLocationAudio_steps [OF failedLoadMixer_fields(1) failedLoad_oneshots t q l]
  show ?thesis by simp
qed

lemma playLayer_effect:
  "l' \<noteq> l \<Longrightarrow> map_of (audioLayers (playLayer s l v b)) l' = map_of (audioLayers s) l'"
  "activeOneshots (playLayer s l v b) = activeOneshots s"
  "startedParts (playLayer s l v b) = startedParts s"
  by (simp_all add: playLayer_def stopSource_def Let_def update_conv' split: option.splits)

lemma playLayer_plays:
  "layerLoaded s l \<Longrightarrow> layerPlaying (playLayer s l v b) l"
  by (auto simp: playLayer_def stopSource_def Let_def update_conv' layerLoaded_def
        layerPlaying_def split: option.splits)

lemma fadeLayer_effect:
  "l' \<noteq> l \<Longrightarrow> map_of (audioLayers (fadeLayer s l v d)) l' = map_of (audioLayers s) l'"
  "activeOneshots (fadeLayer s l v d) = activeOneshots s"
  "startedParts (fadeLayer s l v d) = startedParts s"
  by (simp_all add: fadeLayer_def rampGain_def Let_def update_conv' split: option.splits)

lemma mixLayer_effect:
  "l' \<noteq> l \<Longrightarrow> map_of (audioLayers (mixLayer m l s)) l' = map_of (audioLayers s) l'"
  "activeOneshots (mixLayer m l s) = activeOneshots s"
  "startedParts (mixLayer m l s) = startedParts s"
  by (simp_all add: mixLayer_def Let_def playLayer_effect fadeLayer_effect
        split: option.splits)

lemma mixLayer_plays:
  assumes "layerLoaded s l" "\<not> layerPlaying s l" "l \<notin> activeOneshots s"
    "\<not> isOneshotLayerId l" "0 < getOrZero m l"
  shows "mixLayer m l s = playLayer s l (getOrZero m l) True"
  using assms
  by (simp add: mixLayer_def Let_def layerLoaded_def layerPlaying_def split: option.splits)

lemma failedLoad_healthy:
  "snd (snd (updateLocationAudio allAssetsLoad failedLoadMixer (Some atOrigin))) = Returned"
  "layerPlaying (fst (updateLocationAudio allAssetsLoad failedLoadMixer (Some atOrigin))) ''C''"
  "''P'' \<in> startedParts (fst (updateLocationAudio allAssetsLoad failedLoadMixer (Some atOrigin)))"
proof -
  let ?s2 = "failedLoadMixer\<lparr>lastDebugMessage := ZoneVolume ''music1'' 0 1\<rparr>"
  let ?s3 = "loadAudio (loadAudio ?s2 ''a.mp3'' ''A'') ''b.mp3'' ''B''"
  let ?m = "[(''A'', 1 :: real), (''C'', 1)]"
  have t: "computeTargets atOrigin (audioZones failedLoadMixer)
             ([], lastDebugMessage failedLoadMixer)
           = Some (?m, ZoneVolume ''music1'' 0 1)"
    unfolding failedLoadMixer_fields(2) by (rule failedLoad_targets)
  have q: "partsToStart ?s2 ?m (map fst ?m) [] = [''P'']"
    using failedLoad_queue [of ?s2] by (simp add: failedLoadMixer_fields)
  have a: "ensureLayerLoaded allAssetsLoad ?s2 ''A'' = (True, loadAudio ?s2 ''a.mp3'' ''A'')"
    by (simp add: ensureLayerLoaded_def failedLoadMixer_fields allAssetsLoad_def)
  have b: "ensureLayerLoaded allAssetsLoad (loadAudio ?s2 ''a.mp3'' ''A'') ''B'' = (True, ?s3)"
    by (simp add: ensureLayerLoaded_def loadAudio_def Let_def failedLoadMixer_fields
          allAssetsLoad_def)
  have p3: "partToLayers ?s3 ''P'' = Some [''A'', ''B'']" "startedParts ?s3 = {}"
    "activeOneshots ?s3 = {}"
    "audioLayers ?s3 =
     [(''A'', \<lparr> buffer = Some ''a.mp3'', source = None, gainNode = None, isPlaying = False,
               loop = True, volume = 1, url = Some ''a.mp3'' \<rparr>),
      (''B'', \<lparr> buffer = Some ''b.mp3'', source = None, gainNode = None, isPlaying = False,
               loop = True, volume = 1, url = Some ''b.mp3'' \<rparr>),
      (''C'', \<lparr> buffer = Some ''c.mp3'', source = None, gainNode = None, isPlaying = False,
               loop = True, volume = 1, url = Some ''c.mp3'' \<rparr>)]"
    by (simp_all add: loadAudio_def Let_def failedLoadMixer_fields truthy_def)
  have l: "startQueuedParts allAssetsLoad ?s2 [''P''] = (None, startPart ?s3 ''P'')"
    by (simp add: failedLoadMixer_fields a b)
  from updateLocationAudio_steps [OF failedLoadMixer_fields(1) failedLoad_oneshots t q l]
  have u: "updateLocationAudio allAssetsLoad failedLoadMixer (Some atOrigin)
             = (applyFades ?m (startPart ?s3 ''P''), [], Returned)" by simp
  have loaded: "\<forall>l \<in> set [''A'', ''B'']. layerLoaded ?s3 l"
    by (simp add: layerLoaded_def p3)
  have eq: "startPart ?s3 ''P'' =
      (fold startLayer [''A'', ''B''] ?s3)\<lparr>startedParts := insert ''P'' (startedParts ?s3),
         lastDebugMessage := PartStarted ''P'' (length [''A'', ''B''])\<rparr>"
    using loaded by (intro startPart_starts) (simp_all add: p3)
  have keys: "map fst (audioLayers (startLayer x s)) = map fst (audioLayers s)" for x s
  proof -
    have "x \<in> fst ` set (audioLayers s)" if "map_of (audioLayers s) x = Some r" for r
      using that by (metis map_of_SomeD fst_conv image_eqI)
    then show ?thesis
      by (auto simp: startLayer_def Let_def update_keys split: option.splits)
  qed
  have sp: "''P'' \<in> startedParts (startPart ?s3 ''P'')"
    "map_of (audioLayers (startPart ?s3 ''P'')) ''C'' = map_of (audioLayers ?s3) ''C''"
    "map fst (audioLayers (startPart ?s3 ''P'')) = [''A'', ''B'', ''C'']"
    "activeOneshots (startPart ?s3 ''P'') = {}"
    using fold_startLayer_unchanged [of "''C''" "[''A'', ''B'']" ?s3]
    by (simp_all add: eq keys p3 startLayer_def Let_def split: option.splits)
  show "snd (snd (updateLocationAudio allAssetsLoad failedLoadMixer (Some atOrigin))) = Returned"
    by (simp add: u)
  show "''P'' \<in> startedParts
      (fst (updateLocationAudio allAssetsLoad failedLoadMixer (Some atOrigin)))"
    using sp(1) by (simp add: u applyFades_def sp(3) mixLayer_effect)
  let ?u = "mixLayer ?m ''B'' (mixLayer ?m ''A'' (startPart ?s3 ''P''))"
  have c: "map_of (audioLayers ?u) ''C'' = map_of (audioLayers ?s3) ''C''"
    "activeOneshots ?u = {}"
    using sp(2,4) by (simp_all add: mixLayer_effect)
  have "layerLoaded ?u ''C''" "\<not> layerPlaying ?u ''C''"
    using layer_status_cong(1,2) [OF c(1)] by (simp_all add: layerLoaded_def layerPlaying_def p3)
  moreover have "\<not> isOneshotLayerId ''C''" "0 < getOrZero ?m ''C''"
    by (simp_all add: isOneshotLayerId_def getOrZero_map_of)
  ultimately have "mixLayer ?m ''C'' ?u = playLayer ?u ''C'' (getOrZero ?m ''C'') True"
    "layerLoaded ?u ''C''"
    using c(2) by (simp_all add: mixLayer_plays)
  then have "layerPlaying (mixLayer ?m ''C'' ?u) ''C''"
    by (simp add: playLayer_plays)
  then show "layerPlaying
      (fst (updateLocationAudio allAssetsLoad failedLoadMixer (Some atOrigin))) ''C''"
    by (simp add: u applyFades_def sp(3))
qed

text \<open>
  Claim C8 at its failing input. A position at the centre of the music zone gives the
  layers \<open>A\<close> and \<open>C\<close> the target 1, and \<open>A\<close> queues its part \<open>P\<close>. The load of the
  member \<open>B\<close> fails, the awaited \<open>Promise.all\<close> rejects, and the call rejects in step 3
  with the state reached there: step 4 does not run, so the loaded layer \<open>C\<close> is not
  played, no source exists, and the part is not started. When every asset loads, the
  same call returns with \<open>C\<close> playing and the part started.
\<close>

theorem failed_load_rejects_the_call:
  "updateLocationAudio assetOfBMissing failedLoadMixer (Some atOrigin)
     = (loadAudio (failedLoadMixer\<lparr>lastDebugMessage := ZoneVolume ''music1'' 0 1\<rparr>)
          ''a.mp3'' ''A'',
        [], Rejected ''B'')
   \<and> map_option fst (computeTargets atOrigin (audioZones failedLoadMixer) ([], NoMessage))
       = Some [(''A'', 1), (''C'', 1)]
   \<and> layerLoaded failedLoadMixer ''C''
   \<and> \<not> layerPlaying
         (fst (updateLocationAudio assetOfBMissing failedLoadMixer (Some atOrigin))) ''C''
   \<and> nextNode (fst (updateLocationAudio assetOfBMissing failedLoadMixer (Some atOrigin))) = 0
   \<and> ''P'' \<notin> startedParts
         (fst (updateLocationAudio assetOfBMissing failedLoadMixer (Some atOrigin)))
   \<and> snd (snd (updateLocationAudio allAssetsLoad failedLoadMixer (Some atOrigin))) = Returned
   \<and> layerPlaying
         (fst (updateLocationAudio allAssetsLoad failedLoadMixer (Some atOrigin))) ''C''
   \<and> ''P'' \<in> startedParts
         (fst (updateLocationAudio allAssetsLoad failedLoadMixer (Some atOrigin)))"
proof -
  let ?x = "loadAudio (failedLoadMixer\<lparr>lastDebugMessage := ZoneVolume ''music1'' 0 1\<rparr>)
              ''a.mp3'' ''A''"
  have t: "map_option fst (computeTargets atOrigin (audioZones failedLoadMixer) ([], NoMessage))
       = Some [(''A'', 1), (''C'', 1)]"
    unfolding failedLoadMixer_fields(2) by (simp add: failedLoad_targets del: computeTargets.simps)
  have c: "layerLoaded failedLoadMixer ''C''"
    by (simp add: layerLoaded_def failedLoadMixer_fields)
  have x: "\<not> layerPlaying ?x ''C''" "nextNode ?x = 0" "''P'' \<notin> startedParts ?x"
    by (simp_all add: loadAudio_def Let_def layerPlaying_def failedLoadMixer_fields
          update_conv')
  show ?thesis
    using t c x failedLoad_healthy by (simp add: failedLoad_rejected)
qed


section \<open>Playing the triggered layers\<close>


lemma keeps_stopSource:
  "activeOneshots (stopSource s n) = activeOneshots s"
  "layerLoadable f (stopSource s n) l = layerLoadable f s l"
  by (simp_all add: layerLoadable_def stopSource_def split: option.splits)

lemma keeps_rampGain:
  "activeOneshots (rampGain s g a b) = activeOneshots s"
  "layerLoadable f (rampGain s g a b) l = layerLoadable f s l"
  by (simp_all add: layerLoadable_def rampGain_def split: option.splits)































end
